theory Spec2Isabelle
  imports Complex_Main "HOL-Library.Sublist"
begin

section \<open>Extracting annuli from a data cube: the tutorial's snippets\<close>

text \<open>
  The source is \<^verbatim>\<open>docs/tutorials/extractingdata.ipynb\<close>: Python snippets that build,
  from a 3D cube loaded into \<^verbatim>\<open>rotationmap\<close>, the arrays \<^verbatim>\<open>mask\<close>, \<^verbatim>\<open>spectra\<close>,
  \<^verbatim>\<open>theta\<close> and \<^verbatim>\<open>velax\<close>. The first snippet loads the cube and calls
  \<^verbatim>\<open>cube.disk_coords\<close>, a method of \<^verbatim>\<open>eddy.fit_cube\<close> that the notebook does not
  define: its results \<^verbatim>\<open>rvals\<close> and \<^verbatim>\<open>tvals\<close> are inputs here. Every statement of the
  four snippets after it is an assignment whose right-hand side is a numpy expression;
  the model gives each numpy operation a function on arrays and each statement a
  function on the namespace.

  Numbers: numpy computes in float64, and in int64 where both operands are integers.
  The model takes the finite float64 values as reals and makes the rounding of every
  float operation a parameter \<open>rnd\<close> (the exact result of the operation is rounded by
  \<open>rnd\<close>). Two roundings are defined below: \<open>exact\<close> (no rounding) and \<open>binary64\<close>
  (round to nearest, ties to even, 53 bits, unbounded exponent). A header value is a
  Python \<^verbatim>\<open>int\<close> or \<^verbatim>\<open>float\<close>; an integer array and a Python \<^verbatim>\<open>int\<close> are combined
  in int64, which wraps around, everything else in float64, as numpy 2 promotes them.
  Infinities, NaN, float overflow, subnormal numbers and the memory an array needs are
  outside the model.
\<close>

subsection \<open>Exceptions\<close>

text \<open>
  The Python exceptions the snippets can raise. \<open>NonFinite\<close> is not an exception: it
  marks a statement whose numpy result holds \<^verbatim>\<open>inf\<close> or \<^verbatim>\<open>nan\<close> (a nonempty axis
  divided by a zero rest frequency, which numpy answers with a warning and an array of
  such entries), values the model does not have.
\<close>

datatype exn =
  KeyError string | NameError string | IndexError | ValueError | OverflowError | NonFinite

subsection \<open>Arrays\<close>

text \<open>
  A numpy array is its shape and its elements in C (row-major) order. An array read
  from a file or built by numpy has as many elements as its shape says
  (\<open>well_shaped\<close>).
\<close>

record 'a ndarray =
  shape :: "nat list"
  elems :: "'a list"

definition well_shaped :: "'a ndarray \<Rightarrow> bool" where
  "well_shaped a = (length (elems a) = prod_list (shape a))"

definition ndim :: "'a ndarray \<Rightarrow> nat" where
  "ndim a = length (shape a)"

definition asize :: "'a ndarray \<Rightarrow> nat" where
  "asize a = prod_list (shape a)"

text \<open>An elementwise operation (a ufunc with a scalar operand) keeps the shape.\<close>

definition amap :: "('a \<Rightarrow> 'b) \<Rightarrow> 'a ndarray \<Rightarrow> 'b ndarray" where
  "amap f a = \<lparr>shape = shape a, elems = map f (elems a)\<rparr>"

text \<open>\<^verbatim>\<open>a.flatten()\<close>: a one-dimensional copy in C order.\<close>

definition flatten :: "'a ndarray \<Rightarrow> 'a ndarray" where
  "flatten a = \<lparr>shape = [asize a], elems = elems a\<rparr>"

text \<open>\<^verbatim>\<open>rvals >= c\<close> and \<^verbatim>\<open>rvals <= c\<close> for a scalar \<open>c\<close>.\<close>

definition ge_scalar :: "real ndarray \<Rightarrow> real \<Rightarrow> bool ndarray" where
  "ge_scalar a c = amap (\<lambda>x. c \<le> x) a"

definition le_scalar :: "real ndarray \<Rightarrow> real \<Rightarrow> bool ndarray" where
  "le_scalar a c = amap (\<lambda>x. x \<le> c) a"

text \<open>
  \<^verbatim>\<open>np.logical_and(a, b)\<close> for two arrays of one shape, which is how the tutorial
  calls it (both operands are comparisons of \<^verbatim>\<open>rvals\<close>); numpy's broadcasting of
  different shapes is not modelled.
\<close>

definition logical_and :: "bool ndarray \<Rightarrow> bool ndarray \<Rightarrow> bool ndarray" where
  "logical_and a b = \<lparr>shape = shape a, elems = map2 (\<and>) (elems a) (elems b)\<rparr>"

text \<open>
  \<open>blocks d n xs\<close> cuts the first \<open>d * n\<close> elements of \<open>xs\<close> into \<open>d\<close> consecutive
  blocks of \<open>n\<close> elements: the sub-arrays along the first axis.
\<close>

definition blocks :: "nat \<Rightarrow> nat \<Rightarrow> 'a list \<Rightarrow> 'a list list" where
  "blocks d n xs = map (\<lambda>i. take n (drop (i * n) xs)) [0..<d]"

definition select :: "bool list \<Rightarrow> 'a list \<Rightarrow> 'a list" where
  "select bs xs = map snd (filter fst (zip bs xs))"

definition count_true :: "bool list \<Rightarrow> nat" where
  "count_true bs = length (filter (\<lambda>b. b) bs)"

text \<open>
  \<^verbatim>\<open>x[m]\<close> for a boolean array \<open>m\<close>: \<open>m\<close> takes the first \<open>ndim m\<close> axes of \<open>x\<close>, whose
  lengths must be \<open>m\<close>'s; more mask axes than \<open>x\<close> has is numpy's "too many indices",
  other lengths its "boolean index did not match", both IndexError.
\<close>

definition getitem_mask :: "'a ndarray \<Rightarrow> bool ndarray \<Rightarrow> exn + 'a ndarray" where
  "getitem_mask x m =
     (let k = ndim m in
      if ndim x < k then Inl IndexError
      else if take k (shape x) = shape m then
        (let rest = drop k (shape x) in
         Inr \<lparr>shape = count_true (elems m) # rest,
              elems = concat (select (elems m) (blocks (asize m) (prod_list rest) (elems x)))\<rparr>)
      else Inl IndexError)"

text \<open>
  \<^verbatim>\<open>y[:, m]\<close> for a boolean array \<open>m\<close>: the slice takes the first axis of \<open>y\<close> and \<open>m\<close>
  the \<open>ndim m\<close> axes after it, so \<open>y\<close> needs \<open>1 + ndim m\<close> axes at least.
\<close>

definition getitem_colon_mask :: "'a ndarray \<Rightarrow> bool ndarray \<Rightarrow> exn + 'a ndarray" where
  "getitem_colon_mask y m =
     (let k = ndim m in
      if ndim y < 1 + k then Inl IndexError
      else
        (let d0 = hd (shape y); inner = tl (shape y) in
         if take k inner = shape m then
           (let rest = drop k inner in
            Inr \<lparr>shape = d0 # count_true (elems m) # rest,
                 elems = concat (map (\<lambda>row. concat (select (elems m)
                                        (blocks (asize m) (prod_list rest) row)))
                                   (blocks d0 (prod_list inner) (elems y)))\<rparr>)
         else Inl IndexError))"

text \<open>\<^verbatim>\<open>a.T\<close>: the axes reversed.\<close>

fun tr :: "nat list \<Rightarrow> 'a list \<Rightarrow> 'a list" where
  "tr [] xs = xs"
| "tr (d # ds) xs = concat (transpose (map (tr ds) (blocks d (prod_list ds) xs)))"

definition arr_T :: "'a ndarray \<Rightarrow> 'a ndarray" where
  "arr_T a = \<lparr>shape = rev (shape a), elems = tr (shape a) (elems a)\<rparr>"

text \<open>\<^verbatim>\<open>a.shape[0]\<close>: a zero-dimensional array has the empty tuple as its shape.\<close>

definition shape0 :: "'a ndarray \<Rightarrow> exn + nat" where
  "shape0 a = (case shape a of [] \<Rightarrow> Inl IndexError | d # _ \<Rightarrow> Inr d)"

text \<open>
  \<^verbatim>\<open>a.reshape(d, -1)\<close>: numpy infers the second length as \<open>size / d\<close> and raises
  ValueError when \<open>d\<close> is zero or does not divide the size.
\<close>

definition reshape_rows :: "'a ndarray \<Rightarrow> nat \<Rightarrow> exn + 'a ndarray" where
  "reshape_rows a d =
     (if d = 0 then Inl ValueError
      else if asize a mod d = 0 then Inr \<lparr>shape = [d, asize a div d], elems = elems a\<rparr>
      else Inl ValueError)"

subsection \<open>Float arithmetic\<close>

definition fadd :: "(real \<Rightarrow> real) \<Rightarrow> real \<Rightarrow> real \<Rightarrow> real" where
  "fadd rnd x y = rnd (x + y)"

definition fsub :: "(real \<Rightarrow> real) \<Rightarrow> real \<Rightarrow> real \<Rightarrow> real" where
  "fsub rnd x y = rnd (x - y)"

definition fmul :: "(real \<Rightarrow> real) \<Rightarrow> real \<Rightarrow> real \<Rightarrow> real" where
  "fmul rnd x y = rnd (x * y)"

text \<open>Division by a nonzero number; the statement that divides checks the divisor.\<close>

definition fdiv :: "(real \<Rightarrow> real) \<Rightarrow> real \<Rightarrow> real \<Rightarrow> real" where
  "fdiv rnd x y = rnd (x / y)"

definition exact :: "real \<Rightarrow> real" where
  "exact x = x"

text \<open>Round to the nearest integer, a tie to the even one.\<close>

definition rne :: "real \<Rightarrow> int" where
  "rne y = (let f = \<lfloor>y\<rfloor> in
            if y - of_int f < 1 / 2 then f
            else if 1 / 2 < y - of_int f then f + 1
            else if even f then f else f + 1)"

text \<open>
  The unit in the last place of the binade of \<open>x\<close>: with \<open>2 ^ e \<le> \<bar>x\<bar> < 2 ^ (e + 1)\<close>
  it is \<open>2 ^ (e - 52)\<close>, so that \<open>x / ulp x\<close> has 53 bits before the point.
\<close>

definition ulp :: "real \<Rightarrow> real" where
  "ulp x = 2 powi (\<lfloor>log 2 \<bar>x\<bar>\<rfloor> - 52)"

definition binary64 :: "real \<Rightarrow> real" where
  "binary64 x = (if x = 0 then 0 else of_int (rne (x / ulp x)) * ulp x)"

subsection \<open>Python numbers and the arrays of the velocity axis\<close>

text \<open>
  A header value is a Python \<^verbatim>\<open>int\<close> (unbounded) or a Python \<^verbatim>\<open>float\<close>.
\<close>

datatype pynum = PyInt int | PyFloat real

definition num_val :: "pynum \<Rightarrow> real" where
  "num_val v = (case v of PyInt q \<Rightarrow> of_int q | PyFloat x \<Rightarrow> x)"

text \<open>The int64 range, and int64 arithmetic: the exact result modulo \<open>2 ^ 64\<close>.\<close>

definition in_int64 :: "int \<Rightarrow> bool" where
  "in_int64 q = (- (2 ^ 63) \<le> q \<and> q < 2 ^ 63)"

definition wrap64 :: "int \<Rightarrow> int" where
  "wrap64 x = (x + 2 ^ 63) mod 2 ^ 64 - 2 ^ 63"

text \<open>
  A Python number as a float64 operand: a \<^verbatim>\<open>float\<close> is one, an \<^verbatim>\<open>int\<close> is rounded
  to one, and an \<^verbatim>\<open>int\<close> that rounds beyond the largest float64 raises OverflowError
  ("int too large to convert to float").
\<close>

definition py_float :: "(real \<Rightarrow> real) \<Rightarrow> pynum \<Rightarrow> exn + real" where
  "py_float rnd v =
     (case v of
        PyFloat x \<Rightarrow> Inr x
      | PyInt q \<Rightarrow>
          if \<bar>q\<bar> < 2 ^ 1024 - 2 ^ 970 then Inr (rnd (of_int q)) else Inl OverflowError)"

text \<open>An array of the velocity axis is an int64 or a float64 array.\<close>

datatype nparray = I64 "int ndarray" | F64 "real ndarray"

text \<open>
  \<^verbatim>\<open>np.arange(n)\<close>: the numbers \<open>0, 1, ...\<close> below \<open>n\<close>, none when \<open>n \<le> 0\<close>; an
  int64 array for an \<^verbatim>\<open>int\<close>, a float64 array of \<open>\<lceil>n\<rceil>\<close> numbers for a \<^verbatim>\<open>float\<close>.
\<close>

definition arange :: "pynum \<Rightarrow> nparray" where
  "arange v =
     (case v of
        PyInt n \<Rightarrow> I64 \<lparr>shape = [nat n], elems = map int [0..<nat n]\<rparr>
      | PyFloat x \<Rightarrow> F64 \<lparr>shape = [nat \<lceil>x\<rceil>], elems = map real [0..<nat \<lceil>x\<rceil>]\<rparr>)"

text \<open>
  \<^verbatim>\<open>a - p\<close> for a Python number \<open>p\<close>. An int64 array and an \<^verbatim>\<open>int\<close> stay in int64:
  numpy 2 raises OverflowError for an \<^verbatim>\<open>int\<close> outside the int64 range and
  otherwise subtracts with wrap-around. An int64 array and a \<^verbatim>\<open>float\<close> give float64,
  the entries of the array converted first.
\<close>

definition sub_scalar :: "(real \<Rightarrow> real) \<Rightarrow> nparray \<Rightarrow> pynum \<Rightarrow> exn + nparray" where
  "sub_scalar rnd a p =
     (case a of
        I64 x \<Rightarrow>
          (case p of
             PyInt q \<Rightarrow>
               if in_int64 q then Inr (I64 (amap (\<lambda>i. wrap64 (i - q)) x))
               else Inl OverflowError
           | PyFloat y \<Rightarrow> Inr (F64 (amap (\<lambda>i. fsub rnd (rnd (of_int i)) y) x)))
      | F64 x \<Rightarrow>
          (case py_float rnd p of
             Inl e \<Rightarrow> Inl e
           | Inr y \<Rightarrow> Inr (F64 (amap (\<lambda>v. fsub rnd v y) x))))"

text \<open>\<^verbatim>\<open>a + y\<close> for a Python \<^verbatim>\<open>float\<close> \<open>y\<close>: float64, an int64 array converted first.\<close>

definition add_float :: "(real \<Rightarrow> real) \<Rightarrow> nparray \<Rightarrow> real \<Rightarrow> real ndarray" where
  "add_float rnd a y =
     (case a of
        I64 x \<Rightarrow> amap (\<lambda>i. fadd rnd (rnd (of_int i)) y) x
      | F64 x \<Rightarrow> amap (\<lambda>v. fadd rnd v y) x)"

text \<open>\<^verbatim>\<open>a * d\<close> and \<^verbatim>\<open>c + a\<close> for a float64 array and a Python number.\<close>

definition mul_scalar :: "(real \<Rightarrow> real) \<Rightarrow> real ndarray \<Rightarrow> pynum \<Rightarrow> exn + real ndarray" where
  "mul_scalar rnd a d =
     (case py_float rnd d of
        Inl e \<Rightarrow> Inl e
      | Inr y \<Rightarrow> Inr (amap (\<lambda>v. fmul rnd v y) a))"

definition scalar_add :: "(real \<Rightarrow> real) \<Rightarrow> pynum \<Rightarrow> real ndarray \<Rightarrow> exn + real ndarray" where
  "scalar_add rnd c a =
     (case py_float rnd c of
        Inl e \<Rightarrow> Inl e
      | Inr y \<Rightarrow> Inr (amap (\<lambda>v. fadd rnd y v) a))"

subsection \<open>The namespace\<close>

text \<open>
  \<^verbatim>\<open>cube\<close> is the \<^verbatim>\<open>rotationmap\<close> object; the snippets read its \<^verbatim>\<open>data\<close> and its
  \<^verbatim>\<open>header\<close>, a dictionary whose numeric keywords are the ones read here, each a
  Python \<^verbatim>\<open>int\<close> or \<^verbatim>\<open>float\<close>.
  \<^verbatim>\<open>rvals\<close> and \<^verbatim>\<open>tvals\<close> are what \<^verbatim>\<open>cube.disk_coords\<close> returned, \<^verbatim>\<open>r_min\<close> and
  \<^verbatim>\<open>r_max\<close> the annulus; these are the inputs. The other names are bound by the
  snippets; a name not yet bound is \<open>None\<close>, and reading it raises NameError.
\<close>

record cube =
  data :: "real ndarray"
  header :: "string \<rightharpoonup> pynum"

record ns =
  cube :: cube
  rvals :: "real ndarray"
  tvals :: "real ndarray"
  r_min :: real
  r_max :: real
  mask_v :: "bool ndarray option"
  spectra :: "real ndarray option"
  theta :: "real ndarray option"
  velax :: "real ndarray option"
  nu :: "pynum option"

subsection \<open>The statements\<close>

text \<open>
  A statement either raises, and then binds nothing, or returns the namespace with its
  target rebound. The operands are evaluated left to right, as Python does.
\<close>

text \<open>\<^verbatim>\<open>mask = np.logical_and(rvals >= r_min, rvals <= r_max)\<close>\<close>

definition stmt_mask1 :: "ns \<Rightarrow> exn + ns" where
  "stmt_mask1 s =
     Inr (s\<lparr>mask_v := Some (logical_and (ge_scalar (rvals s) (r_min s))
                                        (le_scalar (rvals s) (r_max s)))\<rparr>)"

text \<open>\<^verbatim>\<open>mask = mask.flatten()\<close>\<close>

definition stmt_mask2 :: "ns \<Rightarrow> exn + ns" where
  "stmt_mask2 s =
     (case mask_v s of
        None \<Rightarrow> Inl (NameError ''mask'')
      | Some m \<Rightarrow> Inr (s\<lparr>mask_v := Some (flatten m)\<rparr>))"

text \<open>\<^verbatim>\<open>spectra = cube.data.reshape(cube.data.shape[0], -1)\<close>\<close>

definition stmt_spectra1 :: "ns \<Rightarrow> exn + ns" where
  "stmt_spectra1 s =
     (case shape0 (data (cube s)) of
        Inl e \<Rightarrow> Inl e
      | Inr d \<Rightarrow>
          (case reshape_rows (data (cube s)) d of
             Inl e \<Rightarrow> Inl e
           | Inr a \<Rightarrow> Inr (s\<lparr>spectra := Some a\<rparr>)))"

text \<open>\<^verbatim>\<open>spectra = spectra.flatten()[:, mask].T\<close>\<close>

definition stmt_spectra2 :: "ns \<Rightarrow> exn + ns" where
  "stmt_spectra2 s =
     (case spectra s of
        None \<Rightarrow> Inl (NameError ''spectra'')
      | Some sp \<Rightarrow>
          (case mask_v s of
             None \<Rightarrow> Inl (NameError ''mask'')
           | Some m \<Rightarrow>
               (case getitem_colon_mask (flatten sp) m of
                  Inl e \<Rightarrow> Inl e
                | Inr a \<Rightarrow> Inr (s\<lparr>spectra := Some (arr_T a)\<rparr>))))"

text \<open>\<^verbatim>\<open>theta = tvals.flatten()[mask]\<close>\<close>

definition stmt_theta :: "ns \<Rightarrow> exn + ns" where
  "stmt_theta s =
     (case mask_v s of
        None \<Rightarrow> Inl (NameError ''mask'')
      | Some m \<Rightarrow>
          (case getitem_mask (flatten (tvals s)) m of
             Inl e \<Rightarrow> Inl e
           | Inr a \<Rightarrow> Inr (s\<lparr>theta := Some a\<rparr>)))"

text \<open>\<^verbatim>\<open>velax = np.arange(cube.header['naxis3']) - cube.header['crpix3'] + 1.0\<close>\<close>

definition stmt_velax1 :: "(real \<Rightarrow> real) \<Rightarrow> ns \<Rightarrow> exn + ns" where
  "stmt_velax1 rnd s =
     (case header (cube s) ''naxis3'' of
        None \<Rightarrow> Inl (KeyError ''naxis3'')
      | Some n \<Rightarrow>
          (case header (cube s) ''crpix3'' of
             None \<Rightarrow> Inl (KeyError ''crpix3'')
           | Some p \<Rightarrow>
               (case sub_scalar rnd (arange n) p of
                  Inl e \<Rightarrow> Inl e
                | Inr a \<Rightarrow> Inr (s\<lparr>velax := Some (add_float rnd a 1)\<rparr>))))"

text \<open>\<^verbatim>\<open>velax = cube.header['crval3'] + velax * cube.header['cdelt3']\<close>\<close>

definition stmt_velax2 :: "(real \<Rightarrow> real) \<Rightarrow> ns \<Rightarrow> exn + ns" where
  "stmt_velax2 rnd s =
     (case header (cube s) ''crval3'' of
        None \<Rightarrow> Inl (KeyError ''crval3'')
      | Some c \<Rightarrow>
          (case velax s of
             None \<Rightarrow> Inl (NameError ''velax'')
           | Some v \<Rightarrow>
               (case header (cube s) ''cdelt3'' of
                  None \<Rightarrow> Inl (KeyError ''cdelt3'')
                | Some d \<Rightarrow>
                    (case mul_scalar rnd v d of
                       Inl e \<Rightarrow> Inl e
                     | Inr m \<Rightarrow>
                         (case scalar_add rnd c m of
                            Inl e \<Rightarrow> Inl e
                          | Inr a \<Rightarrow> Inr (s\<lparr>velax := Some a\<rparr>))))))"

text \<open>\<^verbatim>\<open>nu = cube.header['restfreq']\<close>\<close>

definition stmt_nu :: "ns \<Rightarrow> exn + ns" where
  "stmt_nu s =
     (case header (cube s) ''restfreq'' of
        None \<Rightarrow> Inl (KeyError ''restfreq'')
      | Some f \<Rightarrow> Inr (s\<lparr>nu := Some f\<rparr>))"

text \<open>
  \<^verbatim>\<open>velax = 2.9979e8 * (nu - velax) / nu\<close>, one frequency at a time and on the
  array. \<^verbatim>\<open>2.9979e8\<close> is the integer 299790000; \<open>n\<close> is \<^verbatim>\<open>nu\<close> as a float64
  operand. numpy divides by zero without raising: an empty axis stays empty, the
  entries of a nonempty one become \<^verbatim>\<open>inf\<close> or \<^verbatim>\<open>nan\<close>.
\<close>

definition freq_to_vel :: "(real \<Rightarrow> real) \<Rightarrow> real \<Rightarrow> real \<Rightarrow> real" where
  "freq_to_vel rnd n f = fdiv rnd (fmul rnd 299790000 (fsub rnd n f)) n"

definition stmt_convert :: "(real \<Rightarrow> real) \<Rightarrow> ns \<Rightarrow> exn + ns" where
  "stmt_convert rnd s =
     (case nu s of
        None \<Rightarrow> Inl (NameError ''nu'')
      | Some x \<Rightarrow>
          (case velax s of
             None \<Rightarrow> Inl (NameError ''velax'')
           | Some v \<Rightarrow>
               (case py_float rnd x of
                  Inl e \<Rightarrow> Inl e
                | Inr n \<Rightarrow>
                    if n = 0 then
                      (case elems v of
                         [] \<Rightarrow> Inr (s\<lparr>velax := Some (amap (freq_to_vel rnd n) v)\<rparr>)
                       | _ # _ \<Rightarrow> Inl NonFinite)
                    else Inr (s\<lparr>velax := Some (amap (freq_to_vel rnd n) v)\<rparr>))))"

text \<open>
  The entry of channel \<open>i\<close> after the two statements of the velocity axis, for an
  integer \<^verbatim>\<open>naxis3\<close>: \<^verbatim>\<open>crval3 + (i - crpix3 + 1.0) * cdelt3\<close>, where \<open>i - crpix3\<close> is
  int64 arithmetic for an \<^verbatim>\<open>int\<close> \<^verbatim>\<open>crpix3\<close> and every other operation is a rounded
  float64 operation; \<open>c\<close> and \<open>d\<close> are \<^verbatim>\<open>crval3\<close> and \<^verbatim>\<open>cdelt3\<close> as float64 operands.
\<close>

definition velax_entry :: "(real \<Rightarrow> real) \<Rightarrow> pynum \<Rightarrow> real \<Rightarrow> real \<Rightarrow> nat \<Rightarrow> real" where
  "velax_entry rnd p c d i =
     fadd rnd c
       (fmul rnd
          (fadd rnd
             (case p of
                PyInt q \<Rightarrow> rnd (of_int (wrap64 (int i - q)))
              | PyFloat y \<Rightarrow> fsub rnd (rnd (real i)) y)
             1)
          d)"

text \<open>
  \<^verbatim>\<open>crpix3\<close> raises nothing in the subtraction: a \<^verbatim>\<open>float\<close>, or an \<^verbatim>\<open>int\<close> of the
  int64 range. On \<open>k\<close> channels the subtraction does not wrap around.
\<close>

definition fits_int64 :: "pynum \<Rightarrow> bool" where
  "fits_int64 p = (case p of PyInt q \<Rightarrow> in_int64 q | PyFloat y \<Rightarrow> True)"

definition no_wrap :: "nat \<Rightarrow> pynum \<Rightarrow> bool" where
  "no_wrap k p =
     (case p of PyInt q \<Rightarrow> in_int64 (- q) \<and> in_int64 (int k - q) | PyFloat y \<Rightarrow> True)"


subsection \<open>Running statements\<close>

text \<open>
  Statements run in order; the first exception stops the run and leaves the namespace
  as the statements before it made it.
\<close>

fun exec :: "(ns \<Rightarrow> exn + ns) list \<Rightarrow> ns \<Rightarrow> exn option \<times> ns" where
  "exec [] s = (None, s)"
| "exec (c # cs) s = (case c s of Inl e \<Rightarrow> (Some e, s) | Inr s' \<Rightarrow> exec cs s')"

text \<open>The four snippets of the tutorial.\<close>

definition generate_mask :: "(ns \<Rightarrow> exn + ns) list" where
  "generate_mask = [stmt_mask1, stmt_mask2]"

definition apply_mask :: "(ns \<Rightarrow> exn + ns) list" where
  "apply_mask = [stmt_spectra1, stmt_spectra2, stmt_theta]"

definition get_velax :: "(real \<Rightarrow> real) \<Rightarrow> (ns \<Rightarrow> exn + ns) list" where
  "get_velax rnd = [stmt_velax1 rnd, stmt_velax2 rnd]"

definition convert_velax :: "(real \<Rightarrow> real) \<Rightarrow> (ns \<Rightarrow> exn + ns) list" where
  "convert_velax rnd = [stmt_nu, stmt_convert rnd]"

text \<open>Every statement of the tutorial, in the order of the text.\<close>

definition tutorial_statements :: "(real \<Rightarrow> real) \<Rightarrow> (ns \<Rightarrow> exn + ns) list" where
  "tutorial_statements rnd = generate_mask @ apply_mask @ get_velax rnd @ convert_velax rnd"

subsection \<open>Runs compared\<close>

text \<open>
  The inputs of the snippets are the cube, the two coordinate arrays and the annulus.
  \<open>fresh\<close> is the namespace with the inputs only. Two runs give the same outputs when
  every name that the run from the fresh namespace binds is bound to that value in both.
\<close>

definition same_inputs :: "ns \<Rightarrow> ns \<Rightarrow> bool" where
  "same_inputs s1 s2 =
     (cube s1 = cube s2 \<and> rvals s1 = rvals s2 \<and> tvals s1 = tvals s2
      \<and> r_min s1 = r_min s2 \<and> r_max s1 = r_max s2)"

definition fresh :: "ns \<Rightarrow> ns" where
  "fresh s = s\<lparr>mask_v := None, spectra := None, theta := None, velax := None, nu := None\<rparr>"

definition bound_same :: "'a option \<Rightarrow> 'a option \<Rightarrow> 'a option \<Rightarrow> bool" where
  "bound_same f a b = (case f of None \<Rightarrow> True | Some x \<Rightarrow> a = Some x \<and> b = Some x)"

definition same_outputs :: "ns \<Rightarrow> ns \<Rightarrow> ns \<Rightarrow> bool" where
  "same_outputs f a b =
     (bound_same (mask_v f) (mask_v a) (mask_v b)
      \<and> bound_same (spectra f) (spectra a) (spectra b)
      \<and> bound_same (theta f) (theta a) (theta b)
      \<and> bound_same (velax f) (velax a) (velax b)
      \<and> bound_same (nu f) (nu a) (nu b))"

definition reproduces :: "ns \<Rightarrow> ns \<Rightarrow> bool" where
  "reproduces f a = same_outputs f a a"

text \<open>
  The runs compared: the mask and its application as written, the \<^verbatim>\<open>theta\<close> line
  after the mask, the velocity axis without and with the conversion, and the four
  snippets one after the other.
\<close>

definition runs :: "(real \<Rightarrow> real) \<Rightarrow> (ns \<Rightarrow> exn + ns) list list" where
  "runs rnd =
     [generate_mask @ apply_mask,
      generate_mask @ [stmt_theta],
      get_velax rnd,
      get_velax rnd @ convert_velax rnd,
      tutorial_statements rnd]"

subsection \<open>An example cube\<close>

text \<open>
  Three channels of two by two pixels; the annulus \<open>[1, 2]\<close> holds the pixels 1 and 3
  of the flattened map. \<open>stale_ns\<close> is the same namespace after earlier work left
  \<^verbatim>\<open>theta\<close> and \<^verbatim>\<open>velax\<close> bound, \<open>wide_ns\<close> has a wider annulus, \<open>bare_ns\<close> a header
  without \<^verbatim>\<open>crval3\<close> and \<^verbatim>\<open>restfreq\<close>; \<open>with_header h\<close> is the example with the header \<open>h\<close>.
\<close>

definition example_ns :: ns where
  "example_ns =
     \<lparr>cube = \<lparr>data = \<lparr>shape = [3, 2, 2], elems = [1, 2, 3, 4, 5, 6, 7, 8, 9, 10, 11, 12]\<rparr>,
              header = [''naxis3'' \<mapsto> PyInt 3, ''crpix3'' \<mapsto> PyFloat 2,
                        ''crval3'' \<mapsto> PyFloat 10, ''cdelt3'' \<mapsto> PyFloat 5,
                        ''restfreq'' \<mapsto> PyFloat 20]\<rparr>,
      rvals = \<lparr>shape = [2, 2], elems = [1 / 2, 3 / 2, 5 / 2, 1]\<rparr>,
      tvals = \<lparr>shape = [2, 2], elems = [- 1, 0, 1, 2]\<rparr>,
      r_min = 1, r_max = 2,
      mask_v = None, spectra = None, theta = None, velax = None, nu = None\<rparr>"

definition stale_ns :: ns where
  "stale_ns = example_ns\<lparr>theta := Some \<lparr>shape = [1], elems = [7]\<rparr>,
                         velax := Some \<lparr>shape = [2], elems = [8, 9]\<rparr>\<rparr>"

definition wide_ns :: ns where
  "wide_ns = example_ns\<lparr>r_min := 0, r_max := 3\<rparr>"

definition with_header :: "(string \<rightharpoonup> pynum) \<Rightarrow> ns" where
  "with_header h = example_ns\<lparr>cube := \<lparr>data = data (cube example_ns), header = h\<rparr>\<rparr>"


text \<open>The float64 number that Python prints as \<^verbatim>\<open>0.1\<close>.\<close>

definition tenth :: real where
  "tenth = 3602879701896397 / 2 ^ 55"

section \<open>Properties\<close>

subsection \<open>Lists and arrays\<close>

lemma map2_same: "map2 h (map f xs) (map g xs) = map (\<lambda>x. h (f x) (g x)) xs"
  by (induction xs) simp_all

lemma blocks_one: "n \<le> length xs \<Longrightarrow> blocks n (Suc 0) xs = map (\<lambda>x. [x]) (take n xs)"
  unfolding blocks_def by (rule nth_equalityI) (simp_all add: take_Suc_conv_app_nth)

lemma select_singletons: "concat (select bs (map (\<lambda>x. [x]) xs)) = select bs xs"
proof (induction bs arbitrary: xs)
  case Nil
  then show ?case by (simp add: select_def)
next
  case (Cons b bs)
  then show ?case by (cases xs) (auto simp: select_def)
qed

lemma zip_nth:
  "length bs = length xs \<Longrightarrow> zip bs xs = map (\<lambda>i. (bs ! i, xs ! i)) [0..<length xs]"
  by (rule nth_equalityI) simp_all

lemma select_nth:
  "length bs = length xs \<Longrightarrow>
     select bs xs = map (\<lambda>i. xs ! i) (filter (\<lambda>i. bs ! i) [0..<length xs])"
  by (simp add: select_def zip_nth filter_map o_def)

lemma count_true_select: "length bs = length xs \<Longrightarrow> count_true bs = length (select bs xs)"
proof (induction bs arbitrary: xs)
  case Nil
  then show ?case by (simp add: count_true_def select_def)
next
  case (Cons b bs)
  then show ?case by (cases xs) (auto simp: count_true_def select_def)
qed

lemma select_map_subseq:
  "(\<And>r. p r \<Longrightarrow> q r) \<Longrightarrow> subseq (select (map p rs) ts) (select (map q rs) ts)"
proof (induction rs arbitrary: ts)
  case Nil
  then show ?case by (simp add: select_def)
next
  case (Cons r rs)
  show ?case
  proof (cases ts)
    case Nil
    then show ?thesis by (simp add: select_def)
  next
    case (Cons t ts')
    have "subseq (select (map p rs) ts') (select (map q rs) ts')"
      using Cons.IH Cons.prems by blast
    then show ?thesis
      using Cons Cons.prems[of r] by (auto simp: select_def)
  qed
qed

text \<open>A mask of the array's length on a flat array keeps the entries it marks.\<close>

lemma getitem_mask_flat:
  assumes "length bs = length xs"
  shows "getitem_mask \<lparr>shape = [length xs], elems = xs\<rparr> \<lparr>shape = [length xs], elems = bs\<rparr> =
           Inr \<lparr>shape = [count_true bs], elems = select bs xs\<rparr>"
  using assms by (simp add: getitem_mask_def ndim_def asize_def blocks_one select_singletons)

subsection \<open>Running the snippets\<close>

lemma exec_append:
  "exec (P @ Q) s = (case exec P s of (None, s') \<Rightarrow> exec Q s' | (Some e, s') \<Rightarrow> (Some e, s'))"
  by (induction P arbitrary: s) (simp_all split: sum.splits)

lemma exec_append_raised: "fst (exec P s) \<noteq> None \<Longrightarrow> exec (P @ Q) s = exec P s"
  by (auto simp: exec_append split: prod.splits option.splits)

text \<open>The mask snippet never raises: it binds \<^verbatim>\<open>mask\<close> to a flat array, one entry a pixel.\<close>

lemma exec_generate_mask:
  "exec generate_mask s =
     (None, s\<lparr>mask_v := Some \<lparr>shape = [asize (rvals s)],
                              elems = map (\<lambda>r. r_min s \<le> r \<and> r \<le> r_max s) (elems (rvals s))\<rparr>\<rparr>)"
  by (simp add: generate_mask_def stmt_mask1_def stmt_mask2_def logical_and_def ge_scalar_def
      le_scalar_def amap_def flatten_def asize_def map2_same)

lemma exec_mask_theta:
  assumes "well_shaped (rvals s)" "well_shaped (tvals s)" "shape (tvals s) = shape (rvals s)"
  shows "exec (generate_mask @ [stmt_theta]) s =
    (None, s\<lparr>mask_v := Some \<lparr>shape = [length (elems (rvals s))],
                             elems = map (\<lambda>r. r_min s \<le> r \<and> r \<le> r_max s) (elems (rvals s))\<rparr>,
              theta := Some \<lparr>shape = [length (select (map (\<lambda>r. r_min s \<le> r \<and> r \<le> r_max s)
                                                       (elems (rvals s))) (elems (tvals s)))],
                             elems = select (map (\<lambda>r. r_min s \<le> r \<and> r \<le> r_max s)
                                              (elems (rvals s))) (elems (tvals s))\<rparr>\<rparr>)"
proof -
  let ?bs = "map (\<lambda>r. r_min s \<le> r \<and> r \<le> r_max s) (elems (rvals s))"
  have n: "asize (rvals s) = length (elems (rvals s))" "asize (tvals s) = length (elems (tvals s))"
    "length (elems (rvals s)) = length (elems (tvals s))"
    using assms by (simp_all add: well_shaped_def asize_def)
  have len: "length ?bs = length (elems (tvals s))"
    using n by simp
  show ?thesis
    using getitem_mask_flat[OF len] count_true_select[OF len]
    by (simp add: exec_append exec_generate_mask stmt_theta_def flatten_def n)
qed

text \<open>
  What the statements of the velocity axis read and bind: each reads the header and the
  names bound before it, and binds its one target. A run from a namespace \<open>f\<close> whose
  bound names agree with \<open>s\<close> goes the way the run from \<open>s\<close> goes.
\<close>

lemma stmt_velax1_frame:
  assumes "cube s' = cube s"
  shows "stmt_velax1 rnd s' =
           (case stmt_velax1 rnd s of Inl e \<Rightarrow> Inl e | Inr t \<Rightarrow> Inr (s'\<lparr>velax := velax t\<rparr>))"
  by (simp add: stmt_velax1_def assms split: option.splits sum.splits)

lemma stmt_velax1_binds:
  assumes "stmt_velax1 rnd s = Inr t"
  shows "\<exists>a. t = s\<lparr>velax := Some a\<rparr>"
  using assms by (auto simp: stmt_velax1_def split: option.splits sum.splits)

lemma stmt_velax2_frame:
  assumes "cube s' = cube s" "velax s' = velax s"
  shows "stmt_velax2 rnd s' =
           (case stmt_velax2 rnd s of Inl e \<Rightarrow> Inl e | Inr t \<Rightarrow> Inr (s'\<lparr>velax := velax t\<rparr>))"
  by (simp add: stmt_velax2_def assms split: option.splits sum.splits)

lemma stmt_velax2_binds:
  assumes "stmt_velax2 rnd s = Inr t"
  shows "\<exists>a. t = s\<lparr>velax := Some a\<rparr>"
  using assms by (auto simp: stmt_velax2_def split: option.splits sum.splits)

lemma stmt_nu_frame:
  assumes "cube s' = cube s"
  shows "stmt_nu s' = (case stmt_nu s of Inl e \<Rightarrow> Inl e | Inr t \<Rightarrow> Inr (s'\<lparr>nu := nu t\<rparr>))"
  by (simp add: stmt_nu_def assms split: option.splits)

lemma stmt_nu_binds:
  assumes "stmt_nu s = Inr t"
  shows "\<exists>x. t = s\<lparr>nu := Some x\<rparr>"
  using assms by (auto simp: stmt_nu_def split: option.splits)

lemma stmt_convert_frame:
  assumes "nu s' = nu s" "velax s' = velax s"
  shows "stmt_convert rnd s' =
           (case stmt_convert rnd s of Inl e \<Rightarrow> Inl e | Inr t \<Rightarrow> Inr (s'\<lparr>velax := velax t\<rparr>))"
  by (simp add: stmt_convert_def assms split: option.splits sum.splits list.splits)

lemma stmt_convert_binds:
  assumes "stmt_convert rnd s = Inr t"
  shows "\<exists>a. t = s\<lparr>velax := Some a\<rparr>"
  using assms by (auto simp: stmt_convert_def split: option.splits sum.splits list.splits if_splits)

lemma reproduces_velax:
  "reproduces f s \<Longrightarrow> reproduces (f\<lparr>velax := Some a\<rparr>) (s\<lparr>velax := Some a\<rparr>)"
  by (simp add: reproduces_def same_outputs_def bound_same_def)

lemma reproduces_nu:
  "reproduces f s \<Longrightarrow> reproduces (f\<lparr>nu := Some x\<rparr>) (s\<lparr>nu := Some x\<rparr>)"
  by (simp add: reproduces_def same_outputs_def bound_same_def)

lemma reproduces_velax_bound:
  "reproduces f s \<Longrightarrow> velax f = Some v \<Longrightarrow> velax s = Some v"
  by (simp add: reproduces_def same_outputs_def bound_same_def)

lemma get_velax_sim:
  assumes "cube f = cube s" "reproduces f s"
  shows "fst (exec (get_velax rnd) f) = fst (exec (get_velax rnd) s)
       \<and> cube (snd (exec (get_velax rnd) f)) = cube s
       \<and> cube (snd (exec (get_velax rnd) s)) = cube s
       \<and> reproduces (snd (exec (get_velax rnd) f)) (snd (exec (get_velax rnd) s))
       \<and> (fst (exec (get_velax rnd) f) = None \<longrightarrow>
            (\<exists>v. velax (snd (exec (get_velax rnd) f)) = Some v))"
proof (cases "stmt_velax1 rnd s")
  case (Inl e)
  then have "stmt_velax1 rnd f = Inl e"
    using stmt_velax1_frame[OF assms(1), of rnd] by simp
  then show ?thesis
    using Inl assms by (simp add: get_velax_def)
next
  case (Inr t)
  then obtain a where t: "t = s\<lparr>velax := Some a\<rparr>"
    using stmt_velax1_binds by blast
  have f1: "stmt_velax1 rnd f = Inr (f\<lparr>velax := Some a\<rparr>)"
    using stmt_velax1_frame[OF assms(1), of rnd] Inr t by simp
  have same: "cube (f\<lparr>velax := Some a\<rparr>) = cube (s\<lparr>velax := Some a\<rparr>)"
    "velax (f\<lparr>velax := Some a\<rparr>) = velax (s\<lparr>velax := Some a\<rparr>)"
    using assms(1) by simp_all
  show ?thesis
  proof (cases "stmt_velax2 rnd (s\<lparr>velax := Some a\<rparr>)")
    case (Inl e)
    then have "stmt_velax2 rnd (f\<lparr>velax := Some a\<rparr>) = Inl e"
      using stmt_velax2_frame[OF same, of rnd] by simp
    then show ?thesis
      using Inl Inr t f1 assms reproduces_velax[OF assms(2), of a]
      by (simp add: get_velax_def)
  next
    case r: (Inr u)
    then obtain b where u: "u = s\<lparr>velax := Some a, velax := Some b\<rparr>"
      using stmt_velax2_binds by blast
    have "stmt_velax2 rnd (f\<lparr>velax := Some a\<rparr>) = Inr (f\<lparr>velax := Some a, velax := Some b\<rparr>)"
      using stmt_velax2_frame[OF same, of rnd] r u by simp
    then show ?thesis
      using r Inr t u f1 assms reproduces_velax[OF assms(2), of b]
      by (simp add: get_velax_def)
  qed
qed

lemma convert_velax_sim:
  assumes "cube f = cube s" "reproduces f s" "velax f = Some v"
  shows "fst (exec (convert_velax rnd) f) = fst (exec (convert_velax rnd) s)
       \<and> reproduces (snd (exec (convert_velax rnd) f)) (snd (exec (convert_velax rnd) s))"
proof (cases "stmt_nu s")
  case (Inl e)
  then have "stmt_nu f = Inl e"
    using stmt_nu_frame[OF assms(1)] by simp
  then show ?thesis
    using Inl assms by (simp add: convert_velax_def)
next
  case (Inr t)
  then obtain x where t: "t = s\<lparr>nu := Some x\<rparr>"
    using stmt_nu_binds by blast
  have f1: "stmt_nu f = Inr (f\<lparr>nu := Some x\<rparr>)"
    using stmt_nu_frame[OF assms(1)] Inr t by simp
  have sv: "velax s = Some v"
    using assms(2,3) by (rule reproduces_velax_bound)
  have same: "nu (f\<lparr>nu := Some x\<rparr>) = nu (s\<lparr>nu := Some x\<rparr>)"
    "velax (f\<lparr>nu := Some x\<rparr>) = velax (s\<lparr>nu := Some x\<rparr>)"
    using assms(3) sv by simp_all
  have rep: "reproduces (f\<lparr>nu := Some x\<rparr>) (s\<lparr>nu := Some x\<rparr>)"
    using assms(2) by (rule reproduces_nu)
  show ?thesis
  proof (cases "stmt_convert rnd (s\<lparr>nu := Some x\<rparr>)")
    case (Inl e)
    then have "stmt_convert rnd (f\<lparr>nu := Some x\<rparr>) = Inl e"
      using stmt_convert_frame[OF same, of rnd] by simp
    then show ?thesis
      using Inl Inr t f1 rep by (simp add: convert_velax_def)
  next
    case r: (Inr u)
    then obtain b where u: "u = s\<lparr>nu := Some x, velax := Some b\<rparr>"
      using stmt_convert_binds by blast
    have "stmt_convert rnd (f\<lparr>nu := Some x\<rparr>) = Inr (f\<lparr>nu := Some x, velax := Some b\<rparr>)"
      using stmt_convert_frame[OF same, of rnd] r u by simp
    then show ?thesis
      using r Inr t u f1 reproduces_velax[OF rep, of b]
      by (simp add: convert_velax_def)
  qed
qed

lemma fresh_below: "cube (fresh s) = cube s" "reproduces (fresh s) s"
  by (simp_all add: fresh_def reproduces_def same_outputs_def bound_same_def)


subsection \<open>The mask and the angles\<close>

text \<open>
  Claim C7. For every pixel index \<open>i\<close> the flattened mask is True at \<open>i\<close> exactly when
  \<open>r_min \<le> rvals.flatten()[i] \<le> r_max\<close>, both bounds included; \<^verbatim>\<open>theta\<close> then holds
  the polar angles of exactly the pixels of the closed annulus, in pixel order, and is
  empty when \<open>r_min > r_max\<close>. \<^verbatim>\<open>rvals\<close> and \<^verbatim>\<open>tvals\<close> are the two arrays of one
  \<^verbatim>\<open>disk_coords\<close> call: well shaped and of one shape.
\<close>

theorem mask_selects_closed_annulus:
  assumes "well_shaped (rvals s)" "well_shaped (tvals s)" "shape (tvals s) = shape (rvals s)"
  shows "exec (generate_mask @ [stmt_theta]) s =
      (None,
       s\<lparr>mask_v := Some \<lparr>shape = [length (elems (rvals s))],
                         elems = map (\<lambda>r. r_min s \<le> r \<and> r \<le> r_max s) (elems (rvals s))\<rparr>,
         theta := Some \<lparr>shape = [length (filter (\<lambda>i. r_min s \<le> elems (rvals s) ! i
                                                   \<and> elems (rvals s) ! i \<le> r_max s)
                                            [0..<length (elems (rvals s))])],
                        elems = map (\<lambda>i. elems (tvals s) ! i)
                                  (filter (\<lambda>i. r_min s \<le> elems (rvals s) ! i
                                              \<and> elems (rvals s) ! i \<le> r_max s)
                                     [0..<length (elems (rvals s))])\<rparr>\<rparr>)
     \<and> (\<forall>i < length (elems (rvals s)).
           map (\<lambda>r. r_min s \<le> r \<and> r \<le> r_max s) (elems (rvals s)) ! i
             = (r_min s \<le> elems (rvals s) ! i \<and> elems (rvals s) ! i \<le> r_max s))
     \<and> (r_max s < r_min s \<longrightarrow>
           filter (\<lambda>i. r_min s \<le> elems (rvals s) ! i \<and> elems (rvals s) ! i \<le> r_max s)
             [0..<length (elems (rvals s))] = [])"
proof -
  let ?bs = "map (\<lambda>r. r_min s \<le> r \<and> r \<le> r_max s) (elems (rvals s))"
  let ?idx = "filter (\<lambda>i. r_min s \<le> elems (rvals s) ! i \<and> elems (rvals s) ! i \<le> r_max s)
                [0..<length (elems (rvals s))]"
  have n: "length (elems (rvals s)) = length (elems (tvals s))"
    using assms by (simp add: well_shaped_def)
  have len: "length ?bs = length (elems (tvals s))"
    using n by simp
  have "filter (\<lambda>i. ?bs ! i) [0..<length (elems (tvals s))] = ?idx"
    unfolding n[symmetric] by (rule filter_cong) simp_all
  then have sel: "select ?bs (elems (tvals s)) = map (\<lambda>i. elems (tvals s) ! i) ?idx"
    using select_nth[OF len] by simp
  have run: "exec (generate_mask @ [stmt_theta]) s =
      (None, s\<lparr>mask_v := Some \<lparr>shape = [length (elems (rvals s))], elems = ?bs\<rparr>,
               theta := Some \<lparr>shape = [length ?idx],
                              elems = map (\<lambda>i. elems (tvals s) ! i) ?idx\<rparr>\<rparr>)"
    using exec_mask_theta[OF assms] unfolding sel by simp
  have empty: "r_max s < r_min s \<longrightarrow> ?idx = []"
    by (auto simp: filter_empty_conv)
  show ?thesis
    using run empty by simp
qed

theorem mask_selects_closed_annulus_witness:
  "well_shaped (rvals example_ns) \<and> well_shaped (tvals example_ns)
   \<and> shape (tvals example_ns) = shape (rvals example_ns)
   \<and> exec (generate_mask @ [stmt_theta]) example_ns =
       (None, example_ns\<lparr>mask_v := Some \<lparr>shape = [4], elems = [False, True, False, True]\<rparr>,
                         theta := Some \<lparr>shape = [2], elems = [0, 2]\<rparr>\<rparr>)"
proof -
  have h: "well_shaped (rvals example_ns)" "well_shaped (tvals example_ns)"
    "shape (tvals example_ns) = shape (rvals example_ns)"
    by (simp_all add: example_ns_def well_shaped_def)
  have u: "[0..<4] = [0, 1, 2, 3]"
    by (simp add: upt_rec)
  show ?thesis
    using h mask_selects_closed_annulus[OF h]
    by (simp add: example_ns_def u)
qed

text \<open>
  Claim C9. Widening the annulus (a smaller \<open>r_min\<close>, a larger \<open>r_max\<close>, the same
  pixels) keeps every selected pixel selected, and the angles extracted before are a
  subsequence of the angles extracted after.
\<close>

theorem widening_keeps_selection:
  assumes "rvals s2 = rvals s1" "tvals s2 = tvals s1"
    and "r_min s2 \<le> r_min s1" "r_max s1 \<le> r_max s2"
  shows "(\<exists>m1 m2. exec generate_mask s1 = (None, s1\<lparr>mask_v := Some m1\<rparr>)
            \<and> exec generate_mask s2 = (None, s2\<lparr>mask_v := Some m2\<rparr>)
            \<and> length (elems m1) = length (elems m2)
            \<and> (\<forall>i < length (elems m1). elems m1 ! i \<longrightarrow> elems m2 ! i))
       \<and> (well_shaped (rvals s1) \<and> well_shaped (tvals s1) \<and> shape (tvals s1) = shape (rvals s1) \<longrightarrow>
            (\<exists>m1 m2 t1 t2.
               exec (generate_mask @ [stmt_theta]) s1 = (None, s1\<lparr>mask_v := Some m1, theta := Some t1\<rparr>)
             \<and> exec (generate_mask @ [stmt_theta]) s2 = (None, s2\<lparr>mask_v := Some m2, theta := Some t2\<rparr>)
             \<and> subseq (elems t1) (elems t2)))"
proof (intro conjI impI)
  let ?b1 = "map (\<lambda>r. r_min s1 \<le> r \<and> r \<le> r_max s1) (elems (rvals s1))"
  let ?b2 = "map (\<lambda>r. r_min s2 \<le> r \<and> r \<le> r_max s2) (elems (rvals s2))"
  show "\<exists>m1 m2. exec generate_mask s1 = (None, s1\<lparr>mask_v := Some m1\<rparr>)
            \<and> exec generate_mask s2 = (None, s2\<lparr>mask_v := Some m2\<rparr>)
            \<and> length (elems m1) = length (elems m2)
            \<and> (\<forall>i < length (elems m1). elems m1 ! i \<longrightarrow> elems m2 ! i)"
  proof (intro exI conjI)
    show "exec generate_mask s1 = (None, s1\<lparr>mask_v := Some \<lparr>shape = [asize (rvals s1)], elems = ?b1\<rparr>\<rparr>)"
      and "exec generate_mask s2 = (None, s2\<lparr>mask_v := Some \<lparr>shape = [asize (rvals s2)], elems = ?b2\<rparr>\<rparr>)"
      by (simp_all add: exec_generate_mask)
    show "length (elems \<lparr>shape = [asize (rvals s1)], elems = ?b1\<rparr>) =
          length (elems \<lparr>shape = [asize (rvals s2)], elems = ?b2\<rparr>)"
      using assms(1) by simp
    show "\<forall>i < length (elems \<lparr>shape = [asize (rvals s1)], elems = ?b1\<rparr>).
            elems \<lparr>shape = [asize (rvals s1)], elems = ?b1\<rparr> ! i \<longrightarrow>
            elems \<lparr>shape = [asize (rvals s2)], elems = ?b2\<rparr> ! i"
      using assms by auto
  qed
next
  let ?b1 = "map (\<lambda>r. r_min s1 \<le> r \<and> r \<le> r_max s1) (elems (rvals s1))"
  let ?b2 = "map (\<lambda>r. r_min s2 \<le> r \<and> r \<le> r_max s2) (elems (rvals s2))"
  assume ws: "well_shaped (rvals s1) \<and> well_shaped (tvals s1) \<and> shape (tvals s1) = shape (rvals s1)"
  then have ws2: "well_shaped (rvals s2)" "well_shaped (tvals s2)" "shape (tvals s2) = shape (rvals s2)"
    using assms by simp_all
  have sub: "subseq (select ?b1 (elems (tvals s1))) (select ?b2 (elems (tvals s2)))"
    unfolding assms(1,2)
    by (rule select_map_subseq) (use assms(3,4) in auto)
  show "\<exists>m1 m2 t1 t2.
               exec (generate_mask @ [stmt_theta]) s1 = (None, s1\<lparr>mask_v := Some m1, theta := Some t1\<rparr>)
             \<and> exec (generate_mask @ [stmt_theta]) s2 = (None, s2\<lparr>mask_v := Some m2, theta := Some t2\<rparr>)
             \<and> subseq (elems t1) (elems t2)"
  proof (intro exI conjI)
    show "exec (generate_mask @ [stmt_theta]) s1 =
        (None, s1\<lparr>mask_v := Some \<lparr>shape = [length (elems (rvals s1))], elems = ?b1\<rparr>,
              theta := Some \<lparr>shape = [length (select ?b1 (elems (tvals s1)))],
                             elems = select ?b1 (elems (tvals s1))\<rparr>\<rparr>)"
      using ws by (intro exec_mask_theta) simp_all
    show "exec (generate_mask @ [stmt_theta]) s2 =
        (None, s2\<lparr>mask_v := Some \<lparr>shape = [length (elems (rvals s2))], elems = ?b2\<rparr>,
              theta := Some \<lparr>shape = [length (select ?b2 (elems (tvals s2)))],
                             elems = select ?b2 (elems (tvals s2))\<rparr>\<rparr>)"
      using ws2 by (intro exec_mask_theta)
    show "subseq (elems \<lparr>shape = [length (select ?b1 (elems (tvals s1)))],
                             elems = select ?b1 (elems (tvals s1))\<rparr>)
                 (elems \<lparr>shape = [length (select ?b2 (elems (tvals s2)))],
                             elems = select ?b2 (elems (tvals s2))\<rparr>)"
      using sub by simp
  qed
qed

theorem widening_keeps_selection_witness:
  "rvals wide_ns = rvals example_ns \<and> tvals wide_ns = tvals example_ns
   \<and> r_min wide_ns \<le> r_min example_ns \<and> r_max example_ns \<le> r_max wide_ns
   \<and> well_shaped (rvals example_ns) \<and> well_shaped (tvals example_ns)
   \<and> shape (tvals example_ns) = shape (rvals example_ns)
   \<and> (\<exists>m1 m2. exec generate_mask example_ns = (None, example_ns\<lparr>mask_v := Some m1\<rparr>)
            \<and> exec generate_mask wide_ns = (None, wide_ns\<lparr>mask_v := Some m2\<rparr>)
            \<and> length (elems m1) = length (elems m2)
            \<and> (\<forall>i < length (elems m1). elems m1 ! i \<longrightarrow> elems m2 ! i))
   \<and> (\<exists>m1 m2 t1 t2.
         exec (generate_mask @ [stmt_theta]) example_ns
           = (None, example_ns\<lparr>mask_v := Some m1, theta := Some t1\<rparr>)
       \<and> exec (generate_mask @ [stmt_theta]) wide_ns
           = (None, wide_ns\<lparr>mask_v := Some m2, theta := Some t2\<rparr>)
       \<and> subseq (elems t1) (elems t2))"
proof -
  have h: "rvals wide_ns = rvals example_ns" "tvals wide_ns = tvals example_ns"
    "r_min wide_ns \<le> r_min example_ns" "r_max example_ns \<le> r_max wide_ns"
    by (simp_all add: wide_ns_def example_ns_def)
  have w: "well_shaped (rvals example_ns)" "well_shaped (tvals example_ns)"
    "shape (tvals example_ns) = shape (rvals example_ns)"
    by (simp_all add: example_ns_def well_shaped_def)
  show ?thesis
    using h w widening_keeps_selection[OF h] by blast
qed

subsection \<open>Missing header keywords\<close>






subsection \<open>The cube is only read\<close>

lemma statement_keeps_cube:
  assumes "c \<in> set (tutorial_statements rnd)" "c s = Inr s'"
  shows "cube s' = cube s"
  using assms
  by (auto simp: tutorial_statements_def generate_mask_def apply_mask_def get_velax_def
      convert_velax_def stmt_mask1_def stmt_mask2_def stmt_spectra1_def stmt_spectra2_def
      stmt_theta_def stmt_velax1_def stmt_velax2_def stmt_nu_def stmt_convert_def
      split: option.splits sum.splits if_splits list.splits)

text \<open>
  Claim C8. Whatever statements of the tutorial are run, in whatever order and whether
  or not one of them raises, \<^verbatim>\<open>cube.data\<close> and \<^verbatim>\<open>cube.header\<close> are afterwards what
  they were: the statements only rebind names. (numpy's \<^verbatim>\<open>reshape\<close> returns a view of
  \<^verbatim>\<open>cube.data\<close>, but no statement writes into an array.)
\<close>

theorem snippets_only_read_cube:
  assumes "set P \<subseteq> set (tutorial_statements rnd)"
  shows "data (cube (snd (exec P s))) = data (cube s)
       \<and> header (cube (snd (exec P s))) = header (cube s)"
  using assms
proof (induction P arbitrary: s)
  case Nil
  then show ?case by simp
next
  case (Cons c P)
  show ?case
  proof (cases "c s")
    case (Inl e)
    then show ?thesis by simp
  next
    case (Inr s')
    have "cube s' = cube s"
      using statement_keeps_cube[of c rnd s s'] Cons.prems Inr by simp
    then show ?thesis
      using Cons.IH[of s'] Cons.prems Inr by simp
  qed
qed

theorem snippets_only_read_cube_witness:
  "set (tutorial_statements binary64) \<subseteq> set (tutorial_statements binary64)
   \<and> data (cube (snd (exec (tutorial_statements binary64) example_ns))) = data (cube example_ns)
   \<and> header (cube (snd (exec (tutorial_statements binary64) example_ns))) = header (cube example_ns)"
  using snippets_only_read_cube[of "tutorial_statements binary64" binary64 example_ns]
  by simp

subsection \<open>The shape of the outputs\<close>

text \<open>
  \<^verbatim>\<open>spectra.flatten()\<close> has one axis and \<^verbatim>\<open>[:, mask]\<close> indexes two, so the second
  statement of the third snippet raises IndexError whenever it is reached: the mask
  snippet followed by the third snippet never completes, and after the mask snippet
  the statement raises IndexError whatever array \<^verbatim>\<open>spectra\<close> is bound to.
\<close>

lemma extraction_always_raises:
  "fst (exec (generate_mask @ apply_mask) s) = Some IndexError
   \<or> fst (exec (generate_mask @ apply_mask) s) = Some ValueError"
  by (simp add: exec_append exec_generate_mask apply_mask_def stmt_spectra1_def stmt_spectra2_def
      shape0_def reshape_rows_def getitem_colon_mask_def flatten_def ndim_def
      split: list.splits)

theorem flatten_colon_mask_IndexError:
  "stmt_spectra2 ((snd (exec generate_mask s))\<lparr>spectra := Some a\<rparr>) = Inl IndexError"
  by (simp add: exec_generate_mask stmt_spectra2_def getitem_colon_mask_def flatten_def ndim_def)

text \<open>
  Without \<^verbatim>\<open>.flatten()\<close> the index is well formed: on the two-dimensional reshape,
  \<^verbatim>\<open>spectra[:, mask].T\<close> has the shape \<open>(N, M)\<close> of the tutorial's text, \<open>N\<close> the
  number of True entries of the mask and \<open>M\<close> the number of channels.
\<close>

lemma unflattened_index_shape:
  assumes "shape sp = [m, p]" "shape msk = [p]"
  shows "getitem_colon_mask sp msk \<noteq> Inl IndexError
       \<and> map_sum id (\<lambda>a. shape (arr_T a)) (getitem_colon_mask sp msk)
           = Inr [count_true (elems msk), m]"
  using assms by (simp add: getitem_colon_mask_def ndim_def arr_T_def)

lemma example_unflattened_spectra:
  "map_sum id arr_T
     (getitem_colon_mask \<lparr>shape = [3, 4], elems = [1, 2, 3, 4, 5, 6, 7, 8, 9, 10, 11, 12 :: real]\<rparr>
        \<lparr>shape = [4], elems = [False, True, False, True]\<rparr>)
   = Inr \<lparr>shape = [2, 3], elems = [2, 6, 10, 4, 8, 12]\<rparr>"
  by code_simp

text \<open>
  Claim C1 says that the snippets deliver \<^verbatim>\<open>spectra\<close> of shape \<open>(N, M)\<close>, \<^verbatim>\<open>theta\<close> of
  length \<open>N\<close> and \<^verbatim>\<open>velax\<close> of length \<open>M\<close>. On the example cube (three channels, two
  pixels in the annulus) the run stops with IndexError: \<^verbatim>\<open>spectra\<close> is left as the
  \<open>(3, 4)\<close> reshape of the data and \<^verbatim>\<open>theta\<close> is not bound.
\<close>

theorem example_extraction_IndexError:
  "exec (generate_mask @ apply_mask) example_ns =
     (Some IndexError,
      example_ns\<lparr>mask_v := Some \<lparr>shape = [4], elems = [False, True, False, True]\<rparr>,
                 spectra := Some \<lparr>shape = [3, 4],
                                  elems = [1, 2, 3, 4, 5, 6, 7, 8, 9, 10, 11, 12]\<rparr>\<rparr>)"
  by (simp add: exec_append exec_generate_mask apply_mask_def stmt_spectra1_def stmt_spectra2_def
      shape0_def reshape_rows_def getitem_colon_mask_def flatten_def ndim_def asize_def
      example_ns_def)

subsection \<open>Determinism\<close>

lemma same_inputs_fresh: "same_inputs s1 s2 \<Longrightarrow> fresh s1 = fresh s2"
  by (cases s1, cases s2) (simp add: same_inputs_def fresh_def)

lemma reproduces_same_outputs: "reproduces f a \<Longrightarrow> reproduces f b \<Longrightarrow> same_outputs f a b"
  by (auto simp: reproduces_def same_outputs_def bound_same_def split: option.splits)

lemma run_mask_apply:
  "fst (exec (generate_mask @ apply_mask) s) = fst (exec (generate_mask @ apply_mask) (fresh s))
   \<and> reproduces (snd (exec (generate_mask @ apply_mask) (fresh s)))
                 (snd (exec (generate_mask @ apply_mask) s))"
  by (simp add: exec_append exec_generate_mask apply_mask_def stmt_spectra1_def stmt_spectra2_def
      getitem_colon_mask_def flatten_def ndim_def fresh_def reproduces_def same_outputs_def
      bound_same_def split: sum.splits)

lemma run_mask_theta:
  "fst (exec (generate_mask @ [stmt_theta]) s) = fst (exec (generate_mask @ [stmt_theta]) (fresh s))
   \<and> reproduces (snd (exec (generate_mask @ [stmt_theta]) (fresh s)))
                 (snd (exec (generate_mask @ [stmt_theta]) s))"
  by (simp add: exec_append exec_generate_mask stmt_theta_def
      fresh_def reproduces_def same_outputs_def bound_same_def
      split: sum.splits)

lemma run_get_velax:
  "fst (exec (get_velax rnd) s) = fst (exec (get_velax rnd) (fresh s))
   \<and> reproduces (snd (exec (get_velax rnd) (fresh s))) (snd (exec (get_velax rnd) s))"
  using get_velax_sim[OF fresh_below, of rnd s] by simp

lemma run_velax_convert:
  "fst (exec (get_velax rnd @ convert_velax rnd) s)
     = fst (exec (get_velax rnd @ convert_velax rnd) (fresh s))
   \<and> reproduces (snd (exec (get_velax rnd @ convert_velax rnd) (fresh s)))
        (snd (exec (get_velax rnd @ convert_velax rnd) s))"
proof -
  obtain r1 f1 where f: "exec (get_velax rnd) (fresh s) = (r1, f1)"
    by (cases "exec (get_velax rnd) (fresh s)")
  obtain r2 s1 where s: "exec (get_velax rnd) s = (r2, s1)"
    by (cases "exec (get_velax rnd) s")
  have g: "r1 = r2" "cube f1 = cube s" "cube s1 = cube s" "reproduces f1 s1"
    "r1 = None \<longrightarrow> (\<exists>v. velax f1 = Some v)"
    using get_velax_sim[OF fresh_below, of rnd s] f s by simp_all
  show ?thesis
  proof (cases r1)
    case None
    then obtain v where v: "velax f1 = Some v"
      using g(5) by auto
    have "cube f1 = cube s1" using g(2,3) by simp
    then show ?thesis
      using convert_velax_sim[OF _ g(4) v, of rnd] None g(1) f s
      by (simp add: exec_append)
  next
    case (Some e)
    then show ?thesis
      using g f s by (simp add: exec_append)
  qed
qed

lemma run_whole:
  "exec (tutorial_statements rnd) s = exec (generate_mask @ apply_mask) s"
  using extraction_always_raises[of s]
    exec_append_raised[of "generate_mask @ apply_mask" s "get_velax rnd @ convert_velax rnd"]
  by (auto simp: tutorial_statements_def)

text \<open>
  Claim C5. Two runs of the snippets from namespaces with equal inputs end the same way
  (both complete, or both raise the same exception) and bind the same outputs, whatever
  else the two namespaces held before.
\<close>

theorem runs_deterministic:
  assumes "same_inputs s1 s2" "P \<in> set (runs rnd)"
  shows "fst (exec P s1) = fst (exec P s2)
       \<and> same_outputs (snd (exec P (fresh s1))) (snd (exec P s1)) (snd (exec P s2))"
proof -
  have base: "fst (exec P s) = fst (exec P (fresh s))
      \<and> reproduces (snd (exec P (fresh s))) (snd (exec P s))" for s
    using assms(2) run_mask_apply[of s] run_mask_theta[of s] run_get_velax[of rnd s]
      run_velax_convert[of rnd s]
    by (auto simp: runs_def run_whole)
  have "fresh s1 = fresh s2"
    using assms(1) by (rule same_inputs_fresh)
  then show ?thesis
    using base[of s1] base[of s2] by (simp add: reproduces_same_outputs)
qed

theorem runs_deterministic_witness:
  "same_inputs example_ns stale_ns
   \<and> get_velax exact @ convert_velax exact \<in> set (runs exact)
   \<and> fst (exec (get_velax exact @ convert_velax exact) example_ns) = None
   \<and> fst (exec (get_velax exact @ convert_velax exact) stale_ns) = None
   \<and> velax (snd (exec (get_velax exact @ convert_velax exact) example_ns))
       = Some \<lparr>shape = [3], elems = [224842500, 149895000, 74947500]\<rparr>
   \<and> velax (snd (exec (get_velax exact @ convert_velax exact) stale_ns))
       = Some \<lparr>shape = [3], elems = [224842500, 149895000, 74947500]\<rparr>"
proof -
  have h: "same_inputs example_ns stale_ns" "get_velax exact @ convert_velax exact \<in> set (runs exact)"
    by (simp_all add: same_inputs_def stale_ns_def runs_def)
  have u: "[0..<3] = [0, 1, 2]"
    by (simp add: upt_rec)
  have f: "fresh example_ns = example_ns"
    by (simp add: fresh_def example_ns_def)
  have e: "exec (get_velax exact @ convert_velax exact) example_ns =
      (None, example_ns\<lparr>velax := Some \<lparr>shape = [3], elems = [224842500, 149895000, 74947500]\<rparr>,
                        nu := Some (PyFloat 20)\<rparr>)"
    by (simp add: get_velax_def convert_velax_def stmt_velax1_def stmt_velax2_def stmt_nu_def
        stmt_convert_def example_ns_def arange_def sub_scalar_def add_float_def mul_scalar_def
        scalar_add_def py_float_def amap_def freq_to_vel_def
        fadd_def fsub_def fmul_def fdiv_def exact_def u)
  show ?thesis
    using h runs_deterministic[OF h] e
    by (simp add: f same_outputs_def bound_same_def)
qed

subsection \<open>Rounding\<close>

text \<open>
  \<open>rne\<close> is monotone, odd and the identity on the integers; \<open>binary64\<close> inherits the
  three, keeps every integer below \<open>2 ^ 53\<close>, and is computed from the binade of its
  argument.
\<close>

lemma rne_of_int: "rne (of_int n) = n"
  by (simp add: rne_def)

lemma rne_floor_le: "\<lfloor>y\<rfloor> \<le> rne y"
  by (simp add: rne_def Let_def)

lemma rne_le_ceil: "rne y \<le> \<lfloor>y\<rfloor> + 1"
  by (simp add: rne_def Let_def)

lemma rne_mono: "x \<le> y \<Longrightarrow> rne x \<le> rne y"
proof -
  assume xy: "x \<le> y"
  have fl: "\<lfloor>x\<rfloor> \<le> \<lfloor>y\<rfloor>" using xy by (rule floor_mono)
  show ?thesis
  proof (cases "\<lfloor>x\<rfloor> = \<lfloor>y\<rfloor>")
    case True
    then show ?thesis using xy by (auto simp: rne_def Let_def)
  next
    case False
    then have "\<lfloor>x\<rfloor> + 1 \<le> \<lfloor>y\<rfloor>" using fl by simp
    then show ?thesis using rne_le_ceil[of x] rne_floor_le[of y] by linarith
  qed
qed

lemma rne_minus: "rne (- y) = - rne y"
proof (cases "y \<in> \<int>")
  case True
  then obtain n where "y = of_int n" by (auto elim: Ints_cases)
  then show ?thesis by (simp add: rne_of_int flip: of_int_minus)
next
  case False
  have ne: "y \<noteq> of_int \<lfloor>y\<rfloor>"
  proof
    assume "y = of_int \<lfloor>y\<rfloor>"
    then have "y \<in> \<int>" by (metis Ints_of_int)
    then show False using False by simp
  qed
  have lt: "of_int \<lfloor>y\<rfloor> < y"
    using ne of_int_floor_le[of y] by linarith
  have f: "\<lfloor>- y\<rfloor> = - \<lfloor>y\<rfloor> - 1"
    using ne by (simp add: floor_minus ceiling_altdef)
  show ?thesis
    unfolding rne_def Let_def f using lt by (auto simp: algebra_simps)
qed

lemma binade:
  assumes "0 < x"
  shows "2 powi \<lfloor>log 2 x\<rfloor> \<le> x" "x < 2 powi (\<lfloor>log 2 x\<rfloor> + 1)"
proof -
  have "2 powr (real_of_int \<lfloor>log 2 x\<rfloor>) \<le> x \<and> x < 2 powr (real_of_int \<lfloor>log 2 x\<rfloor> + 1)"
    using floor_log_eq_powr_iff[of x 2 "\<lfloor>log 2 x\<rfloor>"] assms by simp
  moreover have "real_of_int \<lfloor>log 2 x\<rfloor> + 1 = real_of_int (\<lfloor>log 2 x\<rfloor> + 1)" by simp
  ultimately show "2 powi \<lfloor>log 2 x\<rfloor> \<le> x" "x < 2 powi (\<lfloor>log 2 x\<rfloor> + 1)"
    by (simp_all only: powr_real_of_int'[of 2, simplified])
qed

lemma binade_unique:
  assumes "0 < x" "2 powi e \<le> x" "x < 2 powi (e + 1)"
  shows "\<lfloor>log 2 x\<rfloor> = e"
proof -
  have "real_of_int e + 1 = real_of_int (e + 1)" by simp
  then have "2 powr (real_of_int e) \<le> x \<and> x < 2 powr (real_of_int e + 1)"
    using assms(2,3) by (simp only: powr_real_of_int'[of 2, simplified])
  then show ?thesis
    using floor_log_eq_powr_iff[of x 2 e] assms(1) by simp
qed

lemma binary64_eval:
  assumes "x \<noteq> 0" "2 powi e \<le> \<bar>x\<bar>" "\<bar>x\<bar> < 2 powi (e + 1)"
  shows "binary64 x = of_int (rne (x / 2 powi (e - 52))) * 2 powi (e - 52)"
  using assms binade_unique[of "\<bar>x\<bar>" e] by (simp add: binary64_def ulp_def)

lemma ulp_pos: "0 < ulp x"
  by (simp add: ulp_def)

lemma ulp_minus: "ulp (- x) = ulp x"
  by (simp add: ulp_def)

lemma binary64_minus: "binary64 (- x) = - binary64 x"
  by (simp add: binary64_def ulp_minus rne_minus)

lemma binary64_zero: "binary64 0 = 0"
  by (simp add: binary64_def)

lemma binary64_bounds:
  assumes "0 < x" "2 powi e \<le> x" "x < 2 powi (e + 1)"
  shows "2 powi e \<le> binary64 x" "binary64 x \<le> 2 powi (e + 1)"
proof -
  define u :: real where "u = 2 powi (e - 52)"
  have u: "0 < u" by (simp add: u_def)
  have b: "binary64 x = of_int (rne (x / u)) * u"
    using binary64_eval[of x e] assms by (simp add: u_def)
  have lo: "2 powi e = of_int (2 ^ 52) * u"
    by (simp add: u_def power_int_diff)
  have hi: "2 powi (e + 1) = of_int (2 ^ 53) * u"
    by (simp add: u_def power_int_diff power_int_add)
  have "of_int (2 ^ 52) \<le> x / u"
    using assms(2) u unfolding lo by (simp add: pos_le_divide_eq)
  then have "rne (of_int (2 ^ 52)) \<le> rne (x / u)" by (rule rne_mono)
  then have "(2 ^ 52 :: int) \<le> rne (x / u)" by (simp only: rne_of_int)
  then have "of_int (2 ^ 52) \<le> (of_int (rne (x / u)) :: real)" by (simp only: of_int_le_iff)
  then show "2 powi e \<le> binary64 x"
    unfolding b lo using u by (simp only: mult_le_cancel_right_pos)
  have "x / u \<le> of_int (2 ^ 53)"
    using assms(3) u unfolding hi by (simp add: pos_divide_le_eq)
  then have "rne (x / u) \<le> rne (of_int (2 ^ 53))" by (rule rne_mono)
  then have "rne (x / u) \<le> (2 ^ 53 :: int)" by (simp only: rne_of_int)
  then have "(of_int (rne (x / u)) :: real) \<le> of_int (2 ^ 53)" by (simp only: of_int_le_iff)
  then show "binary64 x \<le> 2 powi (e + 1)"
    unfolding b hi using u by (simp only: mult_le_cancel_right_pos)
qed

lemma binary64_pos: "0 < x \<Longrightarrow> 0 < binary64 x"
proof -
  assume x: "0 < x"
  have "2 powi \<lfloor>log 2 x\<rfloor> \<le> binary64 x"
    using binary64_bounds(1)[OF x binade[OF x]] .
  moreover have "(0::real) < 2 powi \<lfloor>log 2 x\<rfloor>" by simp
  ultimately show ?thesis by linarith
qed

lemma binary64_mono_pos:
  assumes "0 < x" "x \<le> y"
  shows "binary64 x \<le> binary64 y"
proof -
  have y: "0 < y" using assms by linarith
  define ex where "ex = \<lfloor>log 2 x\<rfloor>"
  define ey where "ey = \<lfloor>log 2 y\<rfloor>"
  have le: "ex \<le> ey"
    unfolding ex_def ey_def using assms by (intro floor_mono) simp
  show ?thesis
  proof (cases "ex = ey")
    case True
    then have "ulp y = ulp x"
      using assms y by (simp add: ulp_def ex_def ey_def)
    moreover have "rne (x / ulp x) \<le> rne (y / ulp x)"
      using assms(2) ulp_pos[of x] by (intro rne_mono) (simp add: divide_right_mono)
    ultimately show ?thesis
      using assms y ulp_pos[of x] by (simp add: binary64_def mult_right_mono)
  next
    case False
    then have "ex + 1 \<le> ey" using le by simp
    then have "(2::real) powi (ex + 1) \<le> 2 powi ey"
      by (intro power_int_increasing) simp_all
    moreover have "binary64 x \<le> 2 powi (ex + 1)"
      unfolding ex_def using binary64_bounds(2)[OF assms(1) binade[OF assms(1)]] .
    moreover have "2 powi ey \<le> binary64 y"
      unfolding ey_def using binary64_bounds(1)[OF y binade[OF y]] .
    ultimately show ?thesis by linarith
  qed
qed

lemma binary64_mono: "x \<le> y \<Longrightarrow> binary64 x \<le> binary64 y"
proof -
  assume xy: "x \<le> y"
  consider "0 < x" | "x = 0" | "x < 0" "0 < y" | "x < 0" "y = 0" | "x < 0" "y < 0"
    by linarith
  then show ?thesis
  proof cases
    case 1
    then show ?thesis using xy by (rule binary64_mono_pos)
  next
    case 2
    then show ?thesis
      using xy binary64_pos[of y] by (cases "y = 0") (simp_all add: binary64_zero less_imp_le)
  next
    case 3
    then show ?thesis
      using binary64_pos[of y] binary64_pos[of "- x"] by (simp add: binary64_minus)
  next
    case 4
    then show ?thesis
      using binary64_pos[of "- x"] by (simp add: binary64_minus binary64_zero)
  next
    case 5
    then have "binary64 (- y) \<le> binary64 (- x)"
      using xy by (intro binary64_mono_pos) simp_all
    then show ?thesis by (simp add: binary64_minus)
  qed
qed

lemma binary64_minus_one: "binary64 (- 1) = - 1"
  by (subst binary64_eval[where e = 0]) (simp_all add: rne_def)

lemma binary64_of_int_pos:
  assumes "0 < k" "k < 2 ^ 53"
  shows "binary64 (of_int k) = of_int k"
proof -
  define x :: real where "x = of_int k"
  define e where "e = \<lfloor>log 2 x\<rfloor>"
  have x: "0 < x" using assms(1) by (simp add: x_def)
  have lo: "2 powi e \<le> x" and hi: "x < 2 powi (e + 1)"
    unfolding e_def using binade[OF x] by simp_all
  have "x < 2 powi 53"
    using assms(2) unfolding x_def
    by (metis of_int_less_iff of_int_numeral of_int_power power_int_numeral)
  then have below: "(2::real) powi e < 2 powi 53" using lo by linarith
  have e: "e \<le> 52"
  proof (rule ccontr)
    assume "\<not> e \<le> 52"
    then have "53 \<le> e" by simp
    then have "(2::real) powi 53 \<le> 2 powi e"
      by (intro power_int_increasing) simp_all
    then show False using below by linarith
  qed
  define m where "m = nat (52 - e)"
  have u: "(2::real) powi (e - 52) = 1 / 2 ^ m"
    using e by (simp add: m_def power_int_def field_simps)
  have "x / 2 powi (e - 52) = of_int (k * 2 ^ m)"
    by (simp add: u x_def)
  then have "rne (x / 2 powi (e - 52)) = k * 2 ^ m"
    by (simp only: rne_of_int)
  then have "binary64 x = of_int (k * 2 ^ m) * (1 / 2 ^ m)"
    using binary64_eval[of x e] x lo hi by (simp add: u)
  then show ?thesis by (simp add: x_def)
qed

lemma binary64_numeral:
  "(numeral n :: int) < 2 ^ 53 \<Longrightarrow> binary64 (numeral n) = numeral n"
  using binary64_of_int_pos[of "numeral n"] by simp

lemma binary64_one: "binary64 1 = 1"
  using binary64_of_int_pos[of 1] by simp

lemma mono_binary64: "mono binary64"
  by (rule monoI) (rule binary64_mono)

subsection \<open>The velocity axis\<close>

lemma wrap64_id: "in_int64 x \<Longrightarrow> wrap64 x = x"
  by (simp add: in_int64_def wrap64_def)

lemma py_float_val:
  assumes "py_float rnd c = Inr cf" "rnd (num_val c) = num_val c"
  shows "cf = num_val c"
  using assms by (cases c) (simp_all add: py_float_def num_val_def split: if_splits)

lemma exec_get_velax:
  assumes "header (cube s) ''naxis3'' = Some (PyInt n)" "header (cube s) ''crpix3'' = Some p"
    "header (cube s) ''crval3'' = Some c" "header (cube s) ''cdelt3'' = Some d"
    and "fits_int64 p" "py_float rnd c = Inr cf" "py_float rnd d = Inr df"
  shows "exec (get_velax rnd) s =
    (None, s\<lparr>velax := Some \<lparr>shape = [nat n],
                            elems = map (velax_entry rnd p cf df) [0..<nat n]\<rparr>\<rparr>)"
  using assms
  by (cases p)
    (simp_all add: get_velax_def stmt_velax1_def stmt_velax2_def arange_def sub_scalar_def
      add_float_def mul_scalar_def scalar_add_def amap_def velax_entry_def fits_int64_def o_def)

lemma binary64_tenth: "binary64 tenth = tenth"
  unfolding tenth_def by (subst binary64_eval[where e = "-4"]) (simp_all add: rne_def)

lemma binary64_two_tenths: "binary64 (2 * tenth) = 2 * tenth"
  unfolding tenth_def by (subst binary64_eval[where e = "-3"]) (simp_all add: rne_def)

lemma binary64_three_tenths: "binary64 (3 * tenth) = 5404319552844596 / 2 ^ 54"
  unfolding tenth_def by (subst binary64_eval[where e = "-2"]) (simp_all add: rne_def)

lemma upt3: "[0..<3] = [0, 1, 2]"
  by (simp add: upt_rec)

lemma tenth_entries:
  "map (velax_entry binary64 (PyFloat 1) tenth tenth) [0..<3]
     = [tenth, 2 * tenth, 5404319552844596 / 2 ^ 54]"
proof -
  have a: "tenth + tenth = 2 * tenth" "tenth + 2 * tenth = 3 * tenth" by simp_all
  show ?thesis
    by (simp add: upt3 velax_entry_def fadd_def fsub_def fmul_def binary64_zero binary64_one
        binary64_minus_one binary64_numeral binary64_tenth binary64_two_tenths a
        binary64_three_tenths del: mult_2 distrib_right_numeral)
qed

text \<open>The float64 numbers next to \<open>2 ^ 63\<close> round to it.\<close>

lemma binary64_near_2_63:
  "binary64 9223372036854775808 = 9223372036854775808"
  "binary64 9223372036854775807 = 9223372036854775808"
  "binary64 9223372036854775806 = 9223372036854775808"
  by (subst binary64_eval[where e = 63], simp_all add: rne_def)
    (subst binary64_eval[where e = 62], simp_all add: rne_def)+

lemma wrapped_entries:
  "map (velax_entry binary64 (PyInt (- (2 ^ 63))) 0 1) [0..<3]
     = [- (2 ^ 63), - (2 ^ 63), - (2 ^ 63)]"
  by (simp add: upt3 velax_entry_def fadd_def fmul_def wrap64_def binary64_minus
      binary64_near_2_63)

text \<open>
  Claim C2 says that for every header with numeric \<^verbatim>\<open>naxis3\<close>, \<^verbatim>\<open>crpix3\<close>,
  \<^verbatim>\<open>crval3\<close>, \<^verbatim>\<open>cdelt3\<close> the axis has \<^verbatim>\<open>naxis3\<close> entries, consecutive entries
  differ by exactly \<^verbatim>\<open>cdelt3\<close>, and the entry at index \<^verbatim>\<open>crpix3 - 1\<close> is \<^verbatim>\<open>crval3\<close>.
  Three headers of three channels where it fails: with \<^verbatim>\<open>crpix3 = 5.0\<close> no entry is
  \<^verbatim>\<open>crval3\<close> (index 4 is outside); with \<^verbatim>\<open>crval3 = cdelt3 = 0.1\<close> the axis is
  \<^verbatim>\<open>[0.1, 0.2, 0.30000000000000004]\<close>, whose last step is not \<^verbatim>\<open>0.1\<close>; with the
  integer \<^verbatim>\<open>crpix3 = -2 ** 63\<close>, \<^verbatim>\<open>crval3 = 0.0\<close> and \<^verbatim>\<open>cdelt3 = 1.0\<close> the int64
  subtraction wraps around and the three entries are \<^verbatim>\<open>-9.223372036854776e+18\<close>.
\<close>

theorem velax_axis_counterexample:
  "velax (snd (exec (get_velax binary64)
      (with_header [''naxis3'' \<mapsto> PyInt 3, ''crpix3'' \<mapsto> PyFloat 5,
                    ''crval3'' \<mapsto> PyFloat 10, ''cdelt3'' \<mapsto> PyFloat 5])))
     = Some \<lparr>shape = [3], elems = [- 10, - 5, 0]\<rparr>
   \<and> (10 :: real) \<notin> set [- 10, - 5, 0]
   \<and> velax (snd (exec (get_velax binary64)
      (with_header [''naxis3'' \<mapsto> PyInt 3, ''crpix3'' \<mapsto> PyFloat 1,
                    ''crval3'' \<mapsto> PyFloat tenth, ''cdelt3'' \<mapsto> PyFloat tenth])))
     = Some \<lparr>shape = [3], elems = [tenth, 2 * tenth, 5404319552844596 / 2 ^ 54]\<rparr>
   \<and> 5404319552844596 / 2 ^ 54 - 2 * tenth \<noteq> tenth
   \<and> binary64 tenth = tenth
   \<and> velax (snd (exec (get_velax binary64)
      (with_header [''naxis3'' \<mapsto> PyInt 3, ''crpix3'' \<mapsto> PyInt (- (2 ^ 63)),
                    ''crval3'' \<mapsto> PyFloat 0, ''cdelt3'' \<mapsto> PyFloat 1])))
     = Some \<lparr>shape = [3], elems = [- (2 ^ 63), - (2 ^ 63), - (2 ^ 63)]\<rparr>"
proof (intro conjI)
  show "velax (snd (exec (get_velax binary64)
      (with_header [''naxis3'' \<mapsto> PyInt 3, ''crpix3'' \<mapsto> PyFloat 5,
                    ''crval3'' \<mapsto> PyFloat 10, ''cdelt3'' \<mapsto> PyFloat 5])))
     = Some \<lparr>shape = [3], elems = [- 10, - 5, 0]\<rparr>"
    by (subst exec_get_velax[where n = 3 and p = "PyFloat 5" and c = "PyFloat 10"
          and d = "PyFloat 5" and cf = 10 and df = 5])
      (simp_all add: with_header_def fits_int64_def py_float_def upt3 velax_entry_def
        fadd_def fsub_def fmul_def binary64_zero binary64_one binary64_minus binary64_numeral)
  show "(10 :: real) \<notin> set [- 10, - 5, 0]" by simp
  show "velax (snd (exec (get_velax binary64)
      (with_header [''naxis3'' \<mapsto> PyInt 3, ''crpix3'' \<mapsto> PyFloat 1,
                    ''crval3'' \<mapsto> PyFloat tenth, ''cdelt3'' \<mapsto> PyFloat tenth])))
     = Some \<lparr>shape = [3], elems = [tenth, 2 * tenth, 5404319552844596 / 2 ^ 54]\<rparr>"
    by (subst exec_get_velax[where n = 3 and p = "PyFloat 1" and c = "PyFloat tenth"
          and d = "PyFloat tenth" and cf = tenth and df = tenth])
      (simp_all add: with_header_def fits_int64_def py_float_def tenth_entries)
  show "5404319552844596 / 2 ^ 54 - 2 * tenth \<noteq> tenth"
    by (simp add: tenth_def)
  show "binary64 tenth = tenth" by (rule binary64_tenth)
  show "velax (snd (exec (get_velax binary64)
      (with_header [''naxis3'' \<mapsto> PyInt 3, ''crpix3'' \<mapsto> PyInt (- (2 ^ 63)),
                    ''crval3'' \<mapsto> PyFloat 0, ''cdelt3'' \<mapsto> PyFloat 1])))
     = Some \<lparr>shape = [3], elems = [- (2 ^ 63), - (2 ^ 63), - (2 ^ 63)]\<rparr>"
    by (subst exec_get_velax[where n = 3 and p = "PyInt (- (2 ^ 63))" and c = "PyFloat 0"
          and d = "PyFloat 1" and cf = 0 and df = 1])
      (use wrapped_entries in \<open>simp_all add: with_header_def fits_int64_def in_int64_def
        py_float_def\<close>)
qed

text \<open>
  Claim C2, amended. Let \<^verbatim>\<open>naxis3\<close> be a non-negative integer \<open>k\<close>, \<^verbatim>\<open>crpix3\<close> a
  \<^verbatim>\<open>float\<close> or an \<^verbatim>\<open>int\<close> of the int64 range, and \<^verbatim>\<open>crval3\<close>, \<^verbatim>\<open>cdelt3\<close> numbers that
  convert to float64. Then the axis has exactly \<open>k\<close> entries and entry \<open>i\<close> is
  \<^verbatim>\<open>crval3 + (i - crpix3 + 1) * cdelt3\<close> as numpy computes it: \<open>i - crpix3\<close> in int64
  for an \<^verbatim>\<open>int\<close> \<^verbatim>\<open>crpix3\<close>, every float64 operation rounded. Without rounding, and
  when \<open>i - crpix3\<close> does not wrap around, consecutive entries differ by exactly
  \<^verbatim>\<open>cdelt3\<close>. When \<^verbatim>\<open>crpix3\<close> is \<open>j + 1\<close> for a channel \<open>j\<close> and the rounding keeps \<open>0\<close>,
  \<open>-1\<close>, \<open>j\<close> and \<^verbatim>\<open>crval3\<close> (as float64 does for \<open>j\<close> below \<open>2 ^ 53\<close> and a float64
  \<^verbatim>\<open>crval3\<close>), the entry at index \<^verbatim>\<open>crpix3 - 1\<close> is \<^verbatim>\<open>crval3\<close>.
\<close>

theorem velax_axis:
  assumes "header (cube s) ''naxis3'' = Some (PyInt (int k))"
    "header (cube s) ''crpix3'' = Some p"
    "header (cube s) ''crval3'' = Some c" "header (cube s) ''cdelt3'' = Some d"
    and "fits_int64 p" "py_float rnd c = Inr cf" "py_float rnd d = Inr df"
  shows "exec (get_velax rnd) s =
           (None, s\<lparr>velax := Some \<lparr>shape = [k], elems = map (velax_entry rnd p cf df) [0..<k]\<rparr>\<rparr>)
       \<and> length (map (velax_entry rnd p cf df) [0..<k]) = k
       \<and> (no_wrap k p \<longrightarrow>
            (\<forall>i. Suc i < k \<longrightarrow>
               map (velax_entry exact p (num_val c) (num_val d)) [0..<k] ! Suc i
                 - map (velax_entry exact p (num_val c) (num_val d)) [0..<k] ! i = num_val d))
       \<and> (\<forall>j < k. num_val p = real j + 1 \<and> rnd 0 = 0 \<and> rnd (- 1) = - 1
                   \<and> rnd (real j) = real j \<and> rnd (num_val c) = num_val c \<longrightarrow>
             map (velax_entry rnd p cf df) [0..<k] ! j = num_val c)"
proof (intro conjI allI impI)
  show "exec (get_velax rnd) s =
           (None, s\<lparr>velax := Some \<lparr>shape = [k], elems = map (velax_entry rnd p cf df) [0..<k]\<rparr>\<rparr>)"
    using exec_get_velax[OF assms] by simp
  show "length (map (velax_entry rnd p cf df) [0..<k]) = k"
    by simp
next
  fix i
  assume nw: "no_wrap k p" and i: "Suc i < k"
  have "velax_entry exact p (num_val c) (num_val d) (Suc i)
          - velax_entry exact p (num_val c) (num_val d) i = num_val d"
  proof (cases p)
    case (PyInt q)
    then have "in_int64 (int i - q)" "in_int64 (int (Suc i) - q)"
      using nw i by (simp_all add: no_wrap_def in_int64_def)
    then show ?thesis
      using PyInt
      by (simp add: velax_entry_def wrap64_id fadd_def fmul_def exact_def algebra_simps)
  next
    case (PyFloat y)
    then show ?thesis
      by (simp add: velax_entry_def fadd_def fsub_def fmul_def exact_def algebra_simps)
  qed
  then show "map (velax_entry exact p (num_val c) (num_val d)) [0..<k] ! Suc i
               - map (velax_entry exact p (num_val c) (num_val d)) [0..<k] ! i = num_val d"
    using i by simp
next
  fix j
  assume j: "j < k"
    and h: "num_val p = real j + 1 \<and> rnd 0 = 0 \<and> rnd (- 1) = - 1
              \<and> rnd (real j) = real j \<and> rnd (num_val c) = num_val c"
  have cf: "cf = num_val c"
    using h by (intro py_float_val[OF assms(6)]) simp
  have "velax_entry rnd p cf df j = num_val c"
  proof (cases p)
    case (PyInt q)
    then have "of_int q = (of_int (int j + 1) :: real)"
      using h by (simp add: num_val_def)
    then have "q = int j + 1"
      by (simp only: of_int_eq_iff)
    then show ?thesis
      using PyInt h by (simp add: velax_entry_def wrap64_def fadd_def fmul_def cf)
  next
    case (PyFloat y)
    then have "y = real j + 1"
      using h by (simp add: num_val_def)
    then show ?thesis
      using PyFloat h by (simp add: velax_entry_def fadd_def fsub_def fmul_def cf)
  qed
  then show "map (velax_entry rnd p cf df) [0..<k] ! j = num_val c"
    using j by simp
qed

theorem velax_axis_witness:
  "header (cube example_ns) ''naxis3'' = Some (PyInt (int 3))
   \<and> header (cube example_ns) ''crpix3'' = Some (PyFloat 2)
   \<and> header (cube example_ns) ''crval3'' = Some (PyFloat 10)
   \<and> header (cube example_ns) ''cdelt3'' = Some (PyFloat 5)
   \<and> fits_int64 (PyFloat 2) \<and> py_float binary64 (PyFloat 10) = Inr 10
   \<and> py_float binary64 (PyFloat 5) = Inr 5
   \<and> exec (get_velax binary64) example_ns =
        (None, example_ns\<lparr>velax := Some \<lparr>shape = [3], elems = [5, 10, 15]\<rparr>\<rparr>)
   \<and> no_wrap 3 (PyFloat 2)
   \<and> map (velax_entry exact (PyFloat 2) 10 5) [0..<3] ! Suc 0
       - map (velax_entry exact (PyFloat 2) 10 5) [0..<3] ! 0 = 5
   \<and> binary64 0 = 0 \<and> binary64 (- 1) = - 1 \<and> binary64 1 = 1 \<and> binary64 10 = 10
   \<and> map (velax_entry binary64 (PyFloat 2) 10 5) [0..<3] ! 1 = 10"
proof -
  have h: "header (cube example_ns) ''naxis3'' = Some (PyInt (int 3))"
    "header (cube example_ns) ''crpix3'' = Some (PyFloat 2)"
    "header (cube example_ns) ''crval3'' = Some (PyFloat 10)"
    "header (cube example_ns) ''cdelt3'' = Some (PyFloat 5)"
    "fits_int64 (PyFloat 2)" "py_float binary64 (PyFloat 10) = Inr 10"
    "py_float binary64 (PyFloat 5) = Inr 5"
    by (simp_all add: example_ns_def fits_int64_def py_float_def)
  have r: "binary64 0 = 0" "binary64 (- 1) = - 1" "binary64 1 = 1" "binary64 10 = 10"
    by (simp_all add: binary64_zero binary64_minus_one binary64_one binary64_numeral)
  have nw: "no_wrap 3 (PyFloat 2)"
    by (simp add: no_wrap_def)
  have e: "map (velax_entry binary64 (PyFloat 2) 10 5) [0..<3] = [5, 10, 15]"
    by (simp add: upt3 velax_entry_def fadd_def fsub_def fmul_def binary64_zero binary64_one
        binary64_minus binary64_numeral)
  note t = velax_axis[OF h]
  have t1: "exec (get_velax binary64) example_ns =
           (None, example_ns\<lparr>velax := Some \<lparr>shape = [3], elems = [5, 10, 15]\<rparr>\<rparr>)"
    using t[THEN conjunct1] unfolding e .
  have t3: "map (velax_entry exact (PyFloat 2) 10 5) [0..<3] ! Suc 0
              - map (velax_entry exact (PyFloat 2) 10 5) [0..<3] ! 0 = 5"
    using t[THEN conjunct2, THEN conjunct2, THEN conjunct1, rule_format, OF nw, of 0]
    by (simp add: num_val_def)
  have t4: "map (velax_entry binary64 (PyFloat 2) 10 5) [0..<3] ! 1 = 10"
    using t[THEN conjunct2, THEN conjunct2, THEN conjunct2, rule_format, of 1] r
    by (simp add: num_val_def)
  show ?thesis
    using h r nw t1 t3 t4 by simp
qed

subsection \<open>Frequency to velocity\<close>

text \<open>
  Claim C3 says that for a nonzero rest frequency the conversion returns
  \<^verbatim>\<open>2.9979e8 * (nu - f) / nu\<close>, maps \<open>f = nu\<close> to 0 and, for positive \<open>nu\<close>, is strictly
  decreasing in \<open>f\<close>. In float64 it is not strictly decreasing: with \<open>nu = 1\<close> the
  frequencies \<open>0\<close> and \<open>2 ^ -60\<close> both give \<open>299790000\<close>, because \<open>1 - 2 ^ -60\<close>
  rounds to \<open>1\<close>.
\<close>

theorem freq_to_vel_conversion_counterexample:
  "(0 :: real) < 1 \<and> (0 :: real) < 1 / 2 ^ 60
   \<and> binary64 0 = 0 \<and> binary64 (1 / 2 ^ 60) = 1 / 2 ^ 60 \<and> binary64 1 = 1
   \<and> freq_to_vel binary64 1 0 = 299790000
   \<and> freq_to_vel binary64 1 (1 / 2 ^ 60) = 299790000"
proof -
  have a: "binary64 (1 - 1 / 2 ^ 60) = 1"
    by (subst binary64_eval[where e = "-1"]) (simp_all add: rne_def)
  have b: "binary64 (1 / 2 ^ 60) = 1 / 2 ^ 60"
    by (subst binary64_eval[where e = "-60"]) (simp_all add: rne_def)
  have c: "freq_to_vel binary64 1 (1 / 2 ^ 60) = 299790000"
    unfolding freq_to_vel_def fdiv_def fmul_def fsub_def a by (simp add: binary64_numeral)
  have d: "freq_to_vel binary64 1 0 = 299790000"
    unfolding freq_to_vel_def fdiv_def fmul_def fsub_def by (simp add: binary64_numeral binary64_one)
  show ?thesis
    using b c d by (simp add: binary64_zero binary64_one)
qed

text \<open>
  Claim C3, amended. For a rest frequency whose float64 value \<open>n\<close> is not zero (a
  \<^verbatim>\<open>float\<close>, or an \<^verbatim>\<open>int\<close> converted to one), the conversion statement maps every entry
  \<open>f\<close> of \<^verbatim>\<open>velax\<close> to \<^verbatim>\<open>2.9979e8 * (n - f) / n\<close> with each of the three operations
  rounded; the result is 0 at \<open>f = n\<close> (the rounding keeps 0); for positive \<open>n\<close> and a
  monotone rounding it is non-increasing in \<open>f\<close>, and without rounding it is the real
  number \<open>299790000 * (n - f) / n\<close> and strictly decreasing in \<open>f\<close>.
\<close>

theorem freq_to_vel_conversion:
  assumes "py_float rnd x = Inr n" "n \<noteq> 0"
  shows "(header (cube s) ''restfreq'' = Some x \<and> velax s = Some v \<longrightarrow>
            exec (convert_velax rnd) s =
              (None, s\<lparr>nu := Some x, velax := Some (amap (freq_to_vel rnd n) v)\<rparr>))
       \<and> freq_to_vel rnd n f = rnd (rnd (299790000 * rnd (n - f)) / n)
       \<and> freq_to_vel exact n f = 299790000 * (n - f) / n
       \<and> (rnd 0 = 0 \<longrightarrow> freq_to_vel rnd n n = 0)
       \<and> (mono rnd \<and> 0 < n \<and> f1 \<le> f2 \<longrightarrow> freq_to_vel rnd n f2 \<le> freq_to_vel rnd n f1)
       \<and> (0 < n \<and> f1 < f2 \<longrightarrow> freq_to_vel exact n f2 < freq_to_vel exact n f1)"
proof (intro conjI impI)
  assume "header (cube s) ''restfreq'' = Some x \<and> velax s = Some v"
  then show "exec (convert_velax rnd) s =
      (None, s\<lparr>nu := Some x, velax := Some (amap (freq_to_vel rnd n) v)\<rparr>)"
    using assms by (simp add: convert_velax_def stmt_nu_def stmt_convert_def)
next
  show "freq_to_vel rnd n f = rnd (rnd (299790000 * rnd (n - f)) / n)"
    by (simp add: freq_to_vel_def fdiv_def fmul_def fsub_def)
  show "freq_to_vel exact n f = 299790000 * (n - f) / n"
    by (simp add: freq_to_vel_def fdiv_def fmul_def fsub_def exact_def)
next
  assume "rnd 0 = 0"
  then show "freq_to_vel rnd n n = 0"
    by (simp add: freq_to_vel_def fdiv_def fmul_def fsub_def)
next
  assume h: "mono rnd \<and> 0 < n \<and> f1 \<le> f2"
  then have m: "\<And>x y. x \<le> y \<Longrightarrow> rnd x \<le> rnd y"
    by (simp add: mono_def)
  have "rnd (n - f2) \<le> rnd (n - f1)"
    using h by (intro m) simp
  then have "rnd (299790000 * rnd (n - f2)) \<le> rnd (299790000 * rnd (n - f1))"
    by (intro m) simp
  then have "rnd (299790000 * rnd (n - f2)) / n \<le> rnd (299790000 * rnd (n - f1)) / n"
    using h by (simp add: divide_right_mono)
  then show "freq_to_vel rnd n f2 \<le> freq_to_vel rnd n f1"
    unfolding freq_to_vel_def fdiv_def fmul_def fsub_def by (rule m)
next
  assume "0 < n \<and> f1 < f2"
  then show "freq_to_vel exact n f2 < freq_to_vel exact n f1"
    by (simp add: freq_to_vel_def fdiv_def fmul_def fsub_def exact_def divide_strict_right_mono)
qed

theorem freq_to_vel_conversion_witness:
  "py_float binary64 (PyFloat 20) = Inr 20 \<and> py_float exact (PyFloat 20) = Inr 20
   \<and> (20 :: real) \<noteq> 0
   \<and> header (cube stale_ns) ''restfreq'' = Some (PyFloat 20)
   \<and> velax stale_ns = Some \<lparr>shape = [2], elems = [8, 9]\<rparr>
   \<and> exec (convert_velax binary64) stale_ns =
        (None, stale_ns\<lparr>nu := Some (PyFloat 20),
                         velax := Some (amap (freq_to_vel binary64 20) \<lparr>shape = [2], elems = [8, 9]\<rparr>)\<rparr>)
   \<and> binary64 0 = 0 \<and> freq_to_vel binary64 20 20 = 0
   \<and> mono binary64 \<and> (8 :: real) \<le> 9 \<and> freq_to_vel binary64 20 9 \<le> freq_to_vel binary64 20 8
   \<and> freq_to_vel exact 20 9 < freq_to_vel exact 20 8"
proof -
  have p: "py_float binary64 (PyFloat 20) = Inr 20" "py_float exact (PyFloat 20) = Inr 20"
    by (simp_all add: py_float_def)
  have h: "(20 :: real) \<noteq> 0" by simp
  have s: "header (cube stale_ns) ''restfreq'' = Some (PyFloat 20)"
    "velax stale_ns = Some \<lparr>shape = [2], elems = [8, 9]\<rparr>"
    by (simp_all add: stale_ns_def example_ns_def)
  show ?thesis
    using p s binary64_zero mono_binary64
      freq_to_vel_conversion[OF p(1) h, of stale_ns "\<lparr>shape = [2], elems = [8, 9]\<rparr>" 20 8 9]
      freq_to_vel_conversion[OF p(2) h, of stale_ns "\<lparr>shape = [2], elems = [8, 9]\<rparr>" 20 8 9]
    by simp
qed

end
